theory Spec2Isabelle
  imports Main "HOL-Library.Word"
begin

section \<open>Data model of the wallet library\<close>

text \<open>
  A value that JavaScript code has thrown, or a promise has rejected with. Reading a
  property of an object, or of a string or a number, gives a value or \<open>undefined\<close>:
  such a thrown value is its \<open>name\<close>, \<open>message\<close> and optional numeric \<open>code\<close>
  (an absent message and the empty message are both falsy for \<open>error.message || ...\<close>
  and are both the empty string here). Reading a property of \<open>null\<close> or of
  \<open>undefined\<close> throws a \<open>TypeError\<close>: that thrown value is \<open>Nullish\<close>. The
  definitions that follow the source test for it before they read a property; the
  selectors are given values on it only so that a condition on a wallet's answer such as
  \<open>err_code e = Some 4902\<close> is false of it.
\<close>

datatype js_error =
    JsError (err_name: string) (err_message: string) (err_code: "int option")
  | Nullish
where
  "err_name Nullish = []"
| "err_message Nullish = []"
| "err_code Nullish = None"

text \<open>
  \<open>new Error(message)\<close> and \<open>new MetaMaskError(message)\<close>: neither sets a code.
  Where a parameter or a variable of the source has the name of a field of one of the
  records below (\<open>chainId\<close>, \<open>address\<close>, \<open>chain\<close>, \<open>symbol\<close>,
  \<open>holdings\<close>), the definitions shorten it (\<open>cid\<close>, \<open>addr\<close>, \<open>c\<close>,
  \<open>symb\<close>, \<open>hs\<close>).
\<close>

definition Error :: "string \<Rightarrow> js_error" where
  "Error m = JsError ''Error'' m None"

definition MetaMaskError :: "string \<Rightarrow> js_error" where
  "MetaMaskError m = JsError ''MetaMaskError'' m None"

text \<open>
  The \<open>TypeError\<close> of \<open>error.code\<close> when \<open>error\<close> is \<open>null\<close> or
  \<open>undefined\<close>. The text of its message depends on the engine and on which of the two
  the value is; it has no code.
\<close>

definition TypeError_reading_code :: js_error where
  "TypeError_reading_code = JsError ''TypeError'' ''Cannot read properties of null'' None"

record TokenHolding =
  symbol :: string
  chain :: string
  quantity :: string
  selected :: bool

record Account =
  address :: string
  holdings :: "TokenHolding list"

record NativeCurrency =
  nc_symbol :: string
  nc_decimals :: nat

record Chain =
  chainId :: string
  name :: string
  rpc :: string
  nativeCurrency :: NativeCurrency

record Token =
  token_address :: string
  token_symbol :: string

subsection \<open>Supported chains configuration\<close>

definition ETH_MAINNET :: Chain where
  "ETH_MAINNET = \<lparr>chainId = ''0x1'', name = ''ETHEREUM'',
     rpc = ''https://mainnet.infura.io/v3/your-project-id'',
     nativeCurrency = \<lparr>nc_symbol = ''ETH'', nc_decimals = 18\<rparr>\<rparr>"

definition BSC :: Chain where
  "BSC = \<lparr>chainId = ''0x38'', name = ''BNB CHAIN'',
     rpc = ''https://bsc-dataseed.binance.org'',
     nativeCurrency = \<lparr>nc_symbol = ''BNB'', nc_decimals = 18\<rparr>\<rparr>"

definition POLYGON :: Chain where
  "POLYGON = \<lparr>chainId = ''0x89'', name = ''POLYGON'',
     rpc = ''https://polygon-rpc.com'',
     nativeCurrency = \<lparr>nc_symbol = ''MATIC'', nc_decimals = 18\<rparr>\<rparr>"

definition ARBITRUM :: Chain where
  "ARBITRUM = \<lparr>chainId = ''0xa4b1'', name = ''ARBITRUM'',
     rpc = ''https://arb1.arbitrum.io/rpc'',
     nativeCurrency = \<lparr>nc_symbol = ''ETH'', nc_decimals = 18\<rparr>\<rparr>"

text \<open>\<open>Object.values(SUPPORTED_CHAINS)\<close>: the values in insertion order of the keys.\<close>

definition SUPPORTED_CHAINS :: "Chain list" where
  "SUPPORTED_CHAINS = [ETH_MAINNET, BSC, POLYGON, ARBITRUM]"

text \<open>The helper that gives the common tokens of each chain.\<close>

definition getCommonTokensForChain :: "string \<Rightarrow> Token list" where
  "getCommonTokensForChain cid =
     (if cid = ''0x1'' then
        [\<lparr>token_address = ''0xA0b86991c6218b36c1d19D4a2e9Eb0cE3606eB48'', token_symbol = ''USDC''\<rparr>,
         \<lparr>token_address = ''0xdAC17F958D2ee523a2206206994597C13D831ec7'', token_symbol = ''USDT''\<rparr>,
         \<lparr>token_address = ''0x2260FAC5E5542a773Aa44fBCfeDf7C193bc2C599'', token_symbol = ''WBTC''\<rparr>]
      else if cid = ''0x38'' then
        [\<lparr>token_address = ''0x8AC76a51cc950d9822D68b83fE1Ad97B32Cd580d'', token_symbol = ''USDC''\<rparr>,
         \<lparr>token_address = ''0x55d398326f99059fF775485246999027B3197955'', token_symbol = ''USDT''\<rparr>]
      else [])"

section \<open>Decimal scaling\<close>

text \<open>
  Modelled from the spec: \<open>ethers.utils.formatUnits\<close> is a function of the ethers
  library, which is not among the sources. The spec gives it as exact full-precision
  scaling by \<open>10^decimals\<close> into a decimal string, with \<open>1.0\<close> and \<open>0.5\<close> as the
  renderings of one whole unit and of half a unit: the integer part, a point, and the
  fraction padded to \<open>decimals\<close> digits with its trailing zeros removed down to one
  digit. With no decimals the result is the integer alone. The library accepts 0 to 256
  decimals and throws on anything larger.
\<close>

definition digit_char :: "nat \<Rightarrow> char" where
  "digit_char n = ''0123456789'' ! n"

fun toString :: "nat \<Rightarrow> string" where
  "toString n = (if n < 10 then [digit_char n] else toString (n div 10) @ [digit_char (n mod 10)])"

declare toString.simps [simp del]

definition padStart :: "nat \<Rightarrow> string \<Rightarrow> string" where
  "padStart len s = replicate (len - length s) CHR ''0'' @ s"

definition stripTrailingZeros :: "string \<Rightarrow> string" where
  "stripTrailingZeros s =
     (if list_all (\<lambda>c. c = CHR ''0'') s then ''0''
      else rev (dropWhile (\<lambda>c. c = CHR ''0'') (rev s)))"

definition formatUnits :: "nat \<Rightarrow> nat \<Rightarrow> js_error + string" where
  "formatUnits v decimals =
     (if 256 < decimals then Inl (JsError ''Error'' ''invalid decimal size'' None)
      else if decimals = 0 then Inr (toString (v div 10 ^ decimals))
      else Inr (toString (v div 10 ^ decimals) @ ''.'' @
                stripTrailingZeros (padStart decimals (toString (v mod 10 ^ decimals)))))"

text \<open>
  What a quantity string denotes: the number of base units it stands for at a given
  number of decimals (the digits before the point scaled up by \<open>10^decimals\<close>, plus the
  digits after it read as the leading digits of a \<open>decimals\<close>-digit fraction), and
  whether it denotes zero (no digit other than \<open>0\<close> occurs in it).
\<close>

definition digit_of :: "char \<Rightarrow> nat" where
  "digit_of c = of_char c - 48"

definition digits_value :: "string \<Rightarrow> nat" where
  "digits_value s = foldl (\<lambda>a c. 10 * a + digit_of c) 0 s"

definition quantity_units :: "string \<Rightarrow> nat \<Rightarrow> nat" where
  "quantity_units q decimals =
     digits_value (takeWhile (\<lambda>c. c \<noteq> CHR ''.'') q) * 10 ^ decimals
     + digits_value (drop (Suc (length (takeWhile (\<lambda>c. c \<noteq> CHR ''.'') q))) q)
       * 10 ^ (decimals - length (drop (Suc (length (takeWhile (\<lambda>c. c \<noteq> CHR ''.'') q))) q))"

definition quantity_is_zero :: "string \<Rightarrow> bool" where
  "quantity_is_zero q = list_all (\<lambda>c. c = CHR ''0'' \<or> c = CHR ''.'') q"

section \<open>The wallet, the ledger and the effects of the library\<close>

text \<open>
  Every effect of the library on the injected wallet object, on timers and on the ledger
  behind a provider is recorded, in order, as a call.
\<close>

datatype call =
    Request_switchEthereumChain string
  | Request_addEthereumChain string string "string list" NativeCurrency
  | Request_requestAccounts
  | On_chainChanged nat
  | RemoveListener_chainChanged nat
  | SetTimeout nat nat
  | ClearTimeout nat
  | New_Web3Provider nat
  | Call_getBalance string string
  | Call_balanceOf string string string
  | Call_symbol string string
  | Call_decimals string string

text \<open>
  The simulated wallet and ledger: whether \<open>window\<close> and \<open>window.ethereum\<close> exist,
  how the wallet answers each request (\<open>None\<close> is success, \<open>Some e\<close> a rejection
  with \<open>e\<close>), the \<open>chainChanged\<close> notifications it delivers while a wait for a chain
  is pending (in the order of arrival, each with its arrival time in milliseconds after the
  wait began and the identifier it reports), and what the ledger of each network answers
  to the read calls. The ABI of the token interface gives \<open>balanceOf\<close> as
  \<open>uint256\<close> and \<open>decimals\<close> as \<open>uint8\<close>. Within one aggregation every chain is switched to once, so answers indexed by the chain
  identifier cover every answer a wallet with a state of its own can give in that run.
\<close>

record wallet =
  has_window :: bool
  has_ethereum :: bool
  requestAccounts :: "js_error + string list"
  switchEthereumChain :: "string \<Rightarrow> js_error option"
  addEthereumChain :: "string \<Rightarrow> js_error option"
  chainChanged :: "string \<Rightarrow> (nat \<times> string) list"
  getBalance :: "string \<Rightarrow> string \<Rightarrow> js_error + 256 word"
  balanceOf :: "string \<Rightarrow> string \<Rightarrow> string \<Rightarrow> js_error + 256 word"
  symbol_of :: "string \<Rightarrow> string \<Rightarrow> js_error + string"
  decimals_of :: "string \<Rightarrow> string \<Rightarrow> js_error + 8 word"

text \<open>
  The mutable world the library runs in: the listeners registered for \<open>chainChanged\<close>
  (each handler closure has an identity of its own), the pending timers, the counter that
  gives fresh identities, the network the wallet is on, the calls made so far and the
  lines written by \<open>console.error\<close>.
\<close>

record world =
  listeners :: "nat list"
  timers :: "nat list"
  next_id :: nat
  active :: string
  calls :: "call list"
  console :: "(string \<times> js_error) list"

record Web3Provider =
  handle :: nat
  network :: string

definition emit :: "call list \<Rightarrow> world \<Rightarrow> world" where
  "emit cs s = s\<lparr>calls := calls s @ cs\<rparr>"

definition console_error :: "string \<Rightarrow> js_error \<Rightarrow> world \<Rightarrow> world" where
  "console_error msg e s = s\<lparr>console := console s @ [(msg, e)]\<rparr>"

section \<open>Network switch\<close>

definition NETWORK_CHANGE_TIMEOUT :: nat where
  "NETWORK_CHANGE_TIMEOUT = 3000"

text \<open>
  The notifications that reach \<open>handleNetworkChange\<close> while the timer is pending: the
  handler resolves on the first one that reports the target, ignores every other one, and
  the timer wins once a notification comes no earlier than it. The result is whether the
  wait resolved, and the network the wallet last reported.
\<close>

fun handleNetworkChange :: "string \<Rightarrow> (nat \<times> string) list \<Rightarrow> string \<Rightarrow> bool \<times> string" where
  "handleNetworkChange targetChainId [] act = (False, act)"
| "handleNetworkChange targetChainId ((t, networkId) # es) act =
     (if NETWORK_CHANGE_TIMEOUT \<le> t then (False, act)
      else if networkId = targetChainId then (True, networkId)
      else handleNetworkChange targetChainId es networkId)"

definition cleanup :: "wallet \<Rightarrow> nat \<Rightarrow> nat \<Rightarrow> world \<Rightarrow> world" where
  "cleanup w timeout handler s =
     (if has_ethereum w
      then emit [ClearTimeout timeout, RemoveListener_chainChanged handler]
             (s\<lparr>timers := removeAll timeout (timers s),
                listeners := remove1 handler (listeners s)\<rparr>)
      else emit [ClearTimeout timeout] (s\<lparr>timers := removeAll timeout (timers s)\<rparr>))"

definition waitForNetworkChange :: "wallet \<Rightarrow> string \<Rightarrow> world \<Rightarrow> (js_error + unit) \<times> world" where
  "waitForNetworkChange w targetChainId s =
     (let timeout = next_id s;
          handler = Suc (next_id s);
          s1 = emit [SetTimeout timeout NETWORK_CHANGE_TIMEOUT]
                 (s\<lparr>next_id := Suc (Suc (next_id s)), timers := timers s @ [timeout]\<rparr>)
      in if has_ethereum w
         then let s2 = emit [On_chainChanged handler] (s1\<lparr>listeners := listeners s1 @ [handler]\<rparr>);
                  r = handleNetworkChange targetChainId (chainChanged w targetChainId) (active s2);
                  s3 = cleanup w timeout handler (s2\<lparr>active := snd r\<rparr>)
              in (if fst r then Inr () else Inl (Error ''Network change timeout''), s3)
         else (Inl (Error ''Network change timeout''), cleanup w timeout handler s1))"

text \<open>\<open>window.ethereum?.request(...)\<close>: nothing is requested when there is no wallet.\<close>

definition request_switchEthereumChain :: "wallet \<Rightarrow> string \<Rightarrow> world \<Rightarrow> js_error option \<times> world" where
  "request_switchEthereumChain w cid s =
     (if has_ethereum w then (switchEthereumChain w cid, emit [Request_switchEthereumChain cid] s)
      else (None, s))"

definition request_addEthereumChain :: "wallet \<Rightarrow> Chain \<Rightarrow> world \<Rightarrow> js_error option \<times> world" where
  "request_addEthereumChain w c s =
     (if has_ethereum w
      then (addEthereumChain w (chainId c),
            emit [Request_addEthereumChain (chainId c) (name c) [rpc c] (nativeCurrency c)] s)
      else (None, s))"

text \<open>
  \<open>new ethers.providers.Web3Provider(window.ethereum)\<close>: a provider with an identity of
  its own, reading the network the wallet is on; the constructor throws without a wallet.
\<close>

definition new_Web3Provider :: "wallet \<Rightarrow> world \<Rightarrow> (js_error + Web3Provider) \<times> world" where
  "new_Web3Provider w s =
     (if has_ethereum w
      then (Inr \<lparr>handle = next_id s, network = active s\<rparr>,
            emit [New_Web3Provider (next_id s)] (s\<lparr>next_id := Suc (next_id s)\<rparr>))
      else (Inl (Error ''missing provider''), s))"

text \<open>
  The \<open>catch\<close> block of \<open>switchChain\<close>; what it throws leaves the function. Its
  first statement reads \<open>error.code\<close>, which is itself a \<open>TypeError\<close> when the caught
  value is \<open>null\<close> or \<open>undefined\<close>.
\<close>

definition switchChain_catch :: "wallet \<Rightarrow> string \<Rightarrow> js_error \<Rightarrow> world \<Rightarrow> (js_error + Web3Provider) \<times> world" where
  "switchChain_catch w cid error s =
     (if error = Nullish then (Inl TypeError_reading_code, s)
      else if err_code error = Some 4902 then
        (case find (\<lambda>c. chainId c = cid) SUPPORTED_CHAINS of
           Some c \<Rightarrow>
             (case request_addEthereumChain w c s of
                (Some e, s1) \<Rightarrow> (Inl e, s1)
              | (None, s1) \<Rightarrow>
                  (case waitForNetworkChange w cid s1 of
                     (Inl e, s2) \<Rightarrow> (Inl e, s2)
                   | (Inr _, s2) \<Rightarrow> new_Web3Provider w s2))
         | None \<Rightarrow> (Inl error, s))
      else (Inl error, s))"

definition switchChain :: "wallet \<Rightarrow> string \<Rightarrow> world \<Rightarrow> (js_error + Web3Provider) \<times> world" where
  "switchChain w cid s =
     (case request_switchEthereumChain w cid s of
        (Some e, s1) \<Rightarrow> switchChain_catch w cid e s1
      | (None, s1) \<Rightarrow>
          (case waitForNetworkChange w cid s1 of
             (Inl e, s2) \<Rightarrow> switchChain_catch w cid e s2
           | (Inr _, s2) \<Rightarrow>
               (case new_Web3Provider w s2 of
                  (Inl e, s3) \<Rightarrow> switchChain_catch w cid e s3
                | (Inr provider, s3) \<Rightarrow> (Inr provider, s3))))"

section \<open>Balance reads\<close>

text \<open>The template strings of the three \<open>console.error\<close> lines.\<close>

definition native_error_message :: "Chain \<Rightarrow> string" where
  "native_error_message c = ''Error fetching native balance for '' @ name c @ '':''"

definition token_error_message :: "string \<Rightarrow> string" where
  "token_error_message tokenAddress = ''Error checking token '' @ tokenAddress @ '':''"

definition holdings_error_message :: "Chain \<Rightarrow> string" where
  "holdings_error_message c = ''Error fetching '' @ name c @ '' holdings:''"

definition getNativeTokenBalance :: "wallet \<Rightarrow> Web3Provider \<Rightarrow> string \<Rightarrow> Chain \<Rightarrow> world \<Rightarrow> TokenHolding option \<times> world" where
  "getNativeTokenBalance w provider addr c s =
     (case getBalance w (network provider) addr of
        Inl e \<Rightarrow>
          (None, console_error (native_error_message c) e
                   (emit [Call_getBalance (network provider) addr] s))
      | Inr balance \<Rightarrow>
          if balance \<noteq> 0 then
            (case formatUnits (unat balance) (nc_decimals (nativeCurrency c)) of
               Inl e \<Rightarrow>
                 (None, console_error (native_error_message c) e
                          (emit [Call_getBalance (network provider) addr] s))
             | Inr q \<Rightarrow>
                 (Some \<lparr>symbol = nc_symbol (nativeCurrency c), chain = name c,
                        quantity = q, selected = False\<rparr>,
                  emit [Call_getBalance (network provider) addr] s))
          else (None, emit [Call_getBalance (network provider) addr] s))"

text \<open>
  \<open>Promise.all\<close> of the three contract calls: all three are issued before any of them
  is awaited, and the result is the three values or a rejection. Which rejection wins when
  several calls fail depends on their timing; here it is the first in the order of the
  array. Only the log line shows it.
\<close>

definition promise_all3 :: "js_error + 'a \<Rightarrow> js_error + 'b \<Rightarrow> js_error + 'c \<Rightarrow> js_error + ('a \<times> 'b \<times> 'c)" where
  "promise_all3 a b c =
     (case a of Inl e \<Rightarrow> Inl e
      | Inr x \<Rightarrow> (case b of Inl e \<Rightarrow> Inl e
                  | Inr y \<Rightarrow> (case c of Inl e \<Rightarrow> Inl e | Inr z \<Rightarrow> Inr (x, y, z))))"

definition getTokenBalance :: "wallet \<Rightarrow> Web3Provider \<Rightarrow> string \<Rightarrow> string \<Rightarrow> string \<Rightarrow> world \<Rightarrow> TokenHolding option \<times> world" where
  "getTokenBalance w provider tokenAddress walletAddress chainName s =
     (let s1 = emit [Call_balanceOf (network provider) tokenAddress walletAddress,
                     Call_symbol (network provider) tokenAddress,
                     Call_decimals (network provider) tokenAddress] s
      in case promise_all3 (balanceOf w (network provider) tokenAddress walletAddress)
                           (symbol_of w (network provider) tokenAddress)
                           (decimals_of w (network provider) tokenAddress) of
           Inl e \<Rightarrow> (None, console_error (token_error_message tokenAddress) e s1)
         | Inr (balance, symb, decimals) \<Rightarrow>
             if balance \<noteq> 0 then
               (case formatUnits (unat balance) (unat decimals) of
                  Inl e \<Rightarrow> (None, console_error (token_error_message tokenAddress) e s1)
                | Inr q \<Rightarrow>
                    (Some \<lparr>symbol = symb, chain = chainName, quantity = q, selected = False\<rparr>, s1))
             else (None, s1))"

section \<open>Holdings of one account\<close>

text \<open>
  \<open>Promise.all(commonTokens.map(token => getTokenBalance(...)))\<close>: one result per token,
  in the order of the token list. No read rejects, so the whole never rejects. The reads
  overlap in time; their calls and log lines are recorded in the order of the list.
\<close>

fun tokenBalances_all :: "wallet \<Rightarrow> Web3Provider \<Rightarrow> string \<Rightarrow> string \<Rightarrow> Token list \<Rightarrow> world \<Rightarrow> TokenHolding option list \<times> world" where
  "tokenBalances_all w provider addr chainName [] s = ([], s)"
| "tokenBalances_all w provider addr chainName (token # rest) s =
     (case getTokenBalance w provider (token_address token) addr chainName s of
        (b, s1) \<Rightarrow>
          (case tokenBalances_all w provider addr chainName rest s1 of
             (bs, s2) \<Rightarrow> (b # bs, s2)))"

text \<open>\<open>await new Promise(resolve => setTimeout(resolve, 500))\<close>: the timer fires and is gone.\<close>

definition delay :: "nat \<Rightarrow> world \<Rightarrow> world" where
  "delay ms s = emit [SetTimeout (next_id s) ms] (s\<lparr>next_id := Suc (next_id s)\<rparr>)"

text \<open>The body of the loop over the chains, with \<open>hs\<close> the \<open>holdings\<close> list built so far.\<close>

fun chains_loop :: "wallet \<Rightarrow> string \<Rightarrow> Chain list \<Rightarrow> TokenHolding list \<Rightarrow> world \<Rightarrow> TokenHolding list \<times> world" where
  "chains_loop w addr [] hs s = (hs, s)"
| "chains_loop w addr (c # rest) hs s =
     (case switchChain w (chainId c) s of
        (Inl error, s1) \<Rightarrow>
          chains_loop w addr rest hs
            (console_error (holdings_error_message c) error s1)
      | (Inr provider, s1) \<Rightarrow>
          (case getNativeTokenBalance w provider addr c s1 of
             (nativeBalance, s2) \<Rightarrow>
               (case tokenBalances_all w provider addr (name c) (getCommonTokensForChain (chainId c)) s2 of
                  (tokenBalances, s3) \<Rightarrow>
                    chains_loop w addr rest
                      (hs @ (case nativeBalance of None \<Rightarrow> [] | Some h \<Rightarrow> [h])
                                @ map the (filter (\<lambda>b. b \<noteq> None) tokenBalances))
                      (delay 500 s3))))"

definition getAccountHoldings :: "wallet \<Rightarrow> string \<Rightarrow> world \<Rightarrow> (js_error + TokenHolding list) \<times> world" where
  "getAccountHoldings w addr s =
     (if \<not> has_window w then (Inl (JsError ''ReferenceError'' ''window is not defined'' None), s)
      else if \<not> has_ethereum w then (Inl (MetaMaskError ''MetaMask not installed''), s)
      else case chains_loop w addr SUPPORTED_CHAINS [] s of (hs, s') \<Rightarrow> (Inr hs, s'))"

section \<open>Connecting\<close>

text \<open>
  \<open>Promise.all(accounts.map(async (address) => ...))\<close>: every aggregation is started; the
  result is the accounts in the order of the addresses, or the first rejection. The
  aggregations of different addresses overlap in time; here they run one after the other,
  in the order of the addresses.
\<close>

fun accounts_all :: "wallet \<Rightarrow> string list \<Rightarrow> world \<Rightarrow> (js_error + Account list) \<times> world" where
  "accounts_all w [] s = (Inr [], s)"
| "accounts_all w (a # rest) s =
     (case getAccountHoldings w a s of
        (r, s1) \<Rightarrow>
          (case accounts_all w rest s1 of
             (rs, s2) \<Rightarrow>
               (case r of
                  Inl e \<Rightarrow> (Inl e, s2)
                | Inr hs \<Rightarrow>
                    (case rs of
                       Inl e \<Rightarrow> (Inl e, s2)
                     | Inr accts \<Rightarrow> (Inr (\<lparr>address = a, holdings = hs\<rparr> # accts), s2)))))"

text \<open>The \<open>try\<close> block of \<open>connectMetaMask\<close>.\<close>

definition connectMetaMask_try :: "wallet \<Rightarrow> world \<Rightarrow> (js_error + Account list) \<times> world" where
  "connectMetaMask_try w s =
     (case requestAccounts w of
        Inl e \<Rightarrow> (Inl e, emit [Request_requestAccounts] s)
      | Inr accounts \<Rightarrow>
          if accounts = [] then (Inl (MetaMaskError ''No accounts found''), emit [Request_requestAccounts] s)
          else accounts_all w accounts (emit [Request_requestAccounts] s))"

text \<open>
  The \<open>catch\<close> block of \<open>connectMetaMask\<close>: the error it throws for the value it
  caught. It reads \<open>error.code\<close> first, which is itself a \<open>TypeError\<close> when the
  caught value is \<open>null\<close> or \<open>undefined\<close>; that error leaves the function as it is.
\<close>

definition connectMetaMask_catch :: "js_error \<Rightarrow> js_error" where
  "connectMetaMask_catch error =
     (if error = Nullish then TypeError_reading_code
      else if err_code error = Some 4001 then MetaMaskError ''User rejected the connection request''
      else MetaMaskError (if err_message error \<noteq> [] then err_message error
                          else ''Failed to connect to MetaMask''))"

definition connectMetaMask :: "wallet \<Rightarrow> world \<Rightarrow> (js_error + Account list) \<times> world" where
  "connectMetaMask w s =
     (if \<not> has_window w then (Inl (MetaMaskError ''MetaMask cannot be accessed server-side''), s)
      else if \<not> has_ethereum w then (Inl (MetaMaskError ''MetaMask is not installed''), s)
      else case connectMetaMask_try w s of
             (Inl error, s') \<Rightarrow> (Inl (connectMetaMask_catch error), s')
           | (Inr accountsWithHoldings, s') \<Rightarrow> (Inr accountsWithHoldings, s'))"

section \<open>Conditions on the wallet and observations of a run\<close>

text \<open>
  Identities come from the counter: in a world that the library has run in, every
  registered listener and every pending timer has an identity below it.
\<close>

definition fresh_ids :: "world \<Rightarrow> bool" where
  "fresh_ids s = (list_all (\<lambda>i. i < next_id s) (listeners s) \<and> list_all (\<lambda>i. i < next_id s) (timers s))"

text \<open>
  A notification that reports the target arrives before the timeout: it is among the
  notifications that arrive earlier than 3000 milliseconds after the wait began.
\<close>

definition notified :: "wallet \<Rightarrow> string \<Rightarrow> bool" where
  "notified w cid = (cid \<in> set (map snd (takeWhile (\<lambda>e. fst e < 3000) (chainChanged w cid))))"

text \<open>
  The wallet lets the switch reach the wait step: it accepts the switch request, or it
  answers with the code 4902 for a chain of the registry and then accepts the request to
  add that chain.
\<close>

definition reaches_wait :: "wallet \<Rightarrow> string \<Rightarrow> bool" where
  "reaches_wait w cid =
     (case switchEthereumChain w cid of
        None \<Rightarrow> True
      | Some e \<Rightarrow> err_code e = Some 4902 \<and> cid \<in> set (map chainId SUPPORTED_CHAINS)
                  \<and> addEthereumChain w cid = None)"

text \<open>
  The switch succeeds: there is a wallet, the switch reaches the wait step and the
  notification arrives in time. \<open>switchChain\<close> returns a provider exactly then, in
  whatever world it starts (lemmas \<open>switchChain_fst_succeeds\<close> and
  \<open>switchChain_fst_fails\<close> below).
\<close>

definition switch_succeeds :: "wallet \<Rightarrow> string \<Rightarrow> bool" where
  "switch_succeeds w cid = (has_ethereum w \<and> reaches_wait w cid \<and> notified w cid)"

text \<open>The calls made between two worlds of a run, and the kinds of call that are counted.\<close>

definition new_calls :: "world \<Rightarrow> world \<Rightarrow> call list" where
  "new_calls s s' = drop (length (calls s)) (calls s')"

fun is_registration :: "call \<Rightarrow> bool" where
  "is_registration (On_chainChanged _) = True"
| "is_registration _ = False"

fun is_deregistration :: "call \<Rightarrow> bool" where
  "is_deregistration (RemoveListener_chainChanged _) = True"
| "is_deregistration _ = False"

fun is_timer_call :: "call \<Rightarrow> bool" where
  "is_timer_call (SetTimeout _ _) = True"
| "is_timer_call (ClearTimeout _) = True"
| "is_timer_call _ = False"

fun is_token_call :: "string \<Rightarrow> call \<Rightarrow> bool" where
  "is_token_call cid (Call_balanceOf n _ _) = (n = cid)"
| "is_token_call cid (Call_symbol n _) = (n = cid)"
| "is_token_call cid (Call_decimals n _) = (n = cid)"
| "is_token_call cid _ = False"

fun call_network :: "call \<Rightarrow> string option" where
  "call_network (Call_getBalance n _) = Some n"
| "call_network (Call_balanceOf n _ _) = Some n"
| "call_network (Call_symbol n _) = Some n"
| "call_network (Call_decimals n _) = Some n"
| "call_network _ = None"

text \<open>
  The read calls that the library makes on a network it has switched to: the native
  balance, then balance, symbol and decimals of every token of the network.
\<close>

definition is_read :: "call \<Rightarrow> bool" where
  "is_read x = (call_network x \<noteq> None)"

definition token_calls :: "string \<Rightarrow> string \<Rightarrow> string \<Rightarrow> call list" where
  "token_calls cid t addr = [Call_balanceOf cid t addr, Call_symbol cid t, Call_decimals cid t]"

definition read_calls :: "string \<Rightarrow> string \<Rightarrow> call list" where
  "read_calls cid addr =
     Call_getBalance cid addr
     # concat (map (\<lambda>t. token_calls cid (token_address t) addr) (getCommonTokensForChain cid))"

text \<open>The position of a network in the registry, by its display name.\<close>

definition registry_position :: "string \<Rightarrow> nat" where
  "registry_position nm = length (takeWhile (\<lambda>c. name c \<noteq> nm) SUPPORTED_CHAINS)"

text \<open>The world before the library has run: nothing registered, nothing pending.\<close>

definition world0 :: world where
  "world0 = \<lparr>listeners = [], timers = [], next_id = 0, active = ''0x1'', calls = [], console = []\<rparr>"

text \<open>
  What is read on a network once the switch to it has succeeded: the native holding, if
  any, and the holdings of the tokens of the network, through a provider on that network.
  The result of a read depends neither on the identity of the provider nor on the world.
\<close>

definition provider_on :: "string \<Rightarrow> Web3Provider" where
  "provider_on cid = \<lparr>handle = 0, network = cid\<rparr>"

definition native_read :: "wallet \<Rightarrow> string \<Rightarrow> Chain \<Rightarrow> TokenHolding list" where
  "native_read w addr c =
     (case fst (getNativeTokenBalance w (provider_on (chainId c)) addr c world0) of
        None \<Rightarrow> [] | Some h \<Rightarrow> [h])"

definition token_read :: "wallet \<Rightarrow> string \<Rightarrow> Chain \<Rightarrow> Token \<Rightarrow> TokenHolding option" where
  "token_read w addr c token =
     fst (getTokenBalance w (provider_on (chainId c)) (token_address token) addr (name c) world0)"

definition token_reads :: "wallet \<Rightarrow> string \<Rightarrow> Chain \<Rightarrow> TokenHolding list" where
  "token_reads w addr c =
     map the (filter (\<lambda>b. b \<noteq> None) (map (token_read w addr c) (getCommonTokensForChain (chainId c))))"

definition network_holdings :: "wallet \<Rightarrow> string \<Rightarrow> Chain \<Rightarrow> TokenHolding list" where
  "network_holdings w addr c =
     (if switch_succeeds w (chainId c) then native_read w addr c @ token_reads w addr c else [])"

section \<open>A simulated wallet\<close>

text \<open>
  A wallet with two authorised accounts. It does not know Polygon until the chain is added,
  it never confirms the switch to BNB Chain, and it confirms every other switch after 120
  milliseconds. The first account holds one ether, half a USDC (which reports the symbol
  \<open>USD Coin\<close>) and 2.5 MATIC; the USDT contract on Ethereum does not answer
  \<open>decimals\<close>; every other balance is zero.
\<close>

definition unrecognized_chain :: js_error where
  "unrecognized_chain = JsError ''Error'' ''Unrecognized chain ID'' (Some 4902)"

definition user_rejected :: js_error where
  "user_rejected = JsError ''Error'' ''User rejected the request.'' (Some 4001)"

definition alice :: string where
  "alice = ''0xA11CE''"

definition bob :: string where
  "bob = ''0xB0B''"

definition demo_wallet :: wallet where
  "demo_wallet = \<lparr>
     has_window = True,
     has_ethereum = True,
     requestAccounts = Inr [alice, bob],
     switchEthereumChain = (\<lambda>cid. if cid = ''0x89'' then Some unrecognized_chain else None),
     addEthereumChain = (\<lambda>cid. None),
     chainChanged = (\<lambda>cid. if cid = ''0x38'' then [(120, ''0x1'')] else [(120, cid)]),
     getBalance = (\<lambda>cid a. if a = alice \<and> cid = ''0x1'' then Inr 1000000000000000000
                            else if a = alice \<and> cid = ''0x89'' then Inr 2500000000000000000
                            else Inr 0),
     balanceOf = (\<lambda>cid t a. if a = alice \<and> cid = ''0x1''
                                 \<and> t = ''0xA0b86991c6218b36c1d19D4a2e9Eb0cE3606eB48''
                              then Inr 500000 else Inr 0),
     symbol_of = (\<lambda>cid t. if t = ''0xA0b86991c6218b36c1d19D4a2e9Eb0cE3606eB48''
                           then Inr ''USD Coin'' else Inr ''TKN''),
     decimals_of = (\<lambda>cid t. if t = ''0xdAC17F958D2ee523a2206206994597C13D831ec7''
                             then Inl (JsError ''Error'' ''call revert exception'' None)
                             else Inr 6)\<rparr>"

text \<open>
  A wallet that refuses to add the chain it does not know, and a wallet whose rejection of
  the authorisation request carries no message.
\<close>

definition refusing_wallet :: wallet where
  "refusing_wallet = demo_wallet\<lparr>addEthereumChain := (\<lambda>cid. Some user_rejected)\<rparr>"

definition silent_error :: js_error where
  "silent_error = JsError ''Error'' [] (Some (- 32603))"

definition silent_wallet :: wallet where
  "silent_wallet = demo_wallet\<lparr>requestAccounts := Inl silent_error\<rparr>"

section \<open>Decimal strings\<close>

text \<open>
  The digits of a number read back as that number, padding and the removal of trailing
  zeros keep the value of a fraction, and so a formatted amount denotes the raw amount.
\<close>

lemma lt10_cases: "n < 10 \<Longrightarrow> n \<in> {0, 1, 2, 3, 4, 5, 6, 7, 8, 9 :: nat}"
  by auto

lemma digit_char_zero_iff: "n < 10 \<Longrightarrow> digit_char n = CHR ''0'' \<longleftrightarrow> n = 0"
  using lt10_cases [of n] by (auto simp: digit_char_def)

lemma digit_of_digit_char: "n < 10 \<Longrightarrow> digit_of (digit_char n) = n"
  using lt10_cases [of n] by (auto simp: digit_char_def digit_of_def)

lemma digit_char_not_point: "n < 10 \<Longrightarrow> digit_char n \<noteq> CHR ''.''"
  using lt10_cases [of n] by (auto simp: digit_char_def)

lemma toString_not_Nil: "toString n \<noteq> []"
  by (subst toString.simps) simp

lemma toString_hd: "0 < n \<Longrightarrow> hd (toString n) \<noteq> CHR ''0''"
proof (induction n rule: toString.induct)
  case (1 n)
  show ?case
  proof (cases "n < 10")
    case True
    with "1.prems" show ?thesis
      by (subst toString.simps) (simp add: digit_char_zero_iff)
  next
    case False
    then have "0 < n div 10" by simp
    with False "1.IH" have "hd (toString (n div 10)) \<noteq> CHR ''0''" by simp
    with False show ?thesis
      by (subst toString.simps) (simp add: toString_not_Nil)
  qed
qed

lemma toString_no_point: "CHR ''.'' \<notin> set (toString n)"
proof (induction n rule: toString.induct)
  case (1 n)
  show ?case
  proof (cases "n < 10")
    case True
    then have "digit_char n \<noteq> CHR ''.''" by (rule digit_char_not_point)
    with True show ?thesis
      by (subst toString.simps) auto
  next
    case False
    with "1.IH" have "CHR ''.'' \<notin> set (toString (n div 10))" by simp
    moreover have "digit_char (n mod 10) \<noteq> CHR ''.''" by (simp add: digit_char_not_point)
    ultimately show ?thesis using False
      by (subst toString.simps) auto
  qed
qed

lemma digits_value_Nil: "digits_value [] = 0"
  by (simp add: digits_value_def)

lemma digits_value_snoc: "digits_value (xs @ [c]) = 10 * digits_value xs + digit_of c"
  by (simp add: digits_value_def)

lemma digits_value_append: "digits_value (xs @ ys) = digits_value xs * 10 ^ length ys + digits_value ys"
proof (induction ys rule: rev_induct)
  case Nil
  then show ?case by (simp add: digits_value_Nil)
next
  case (snoc y ys)
  have "digits_value (xs @ ys @ [y]) = 10 * digits_value (xs @ ys) + digit_of y"
    using digits_value_snoc [of "xs @ ys" y] by simp
  also have "\<dots> = 10 * (digits_value xs * 10 ^ length ys + digits_value ys) + digit_of y"
    by (simp add: snoc.IH)
  also have "\<dots> = digits_value xs * 10 ^ length (ys @ [y]) + digits_value (ys @ [y])"
    by (simp add: digits_value_snoc algebra_simps)
  finally show ?case by simp
qed

lemma digits_value_zeros: "digits_value (replicate k CHR ''0'') = 0"
proof (induction k)
  case 0
  then show ?case by (simp add: digits_value_Nil)
next
  case (Suc k)
  have "replicate (Suc k) CHR ''0'' = replicate k CHR ''0'' @ ''0''"
    by (simp add: replicate_append_same)
  then have "digits_value (replicate (Suc k) CHR ''0'') = 10 * digits_value (replicate k CHR ''0'') + digit_of CHR ''0''"
    by (simp only: digits_value_snoc)
  with Suc show ?case by (simp add: digit_of_def)
qed

lemma digits_value_toString: "digits_value (toString n) = n"
proof (induction n rule: toString.induct)
  case (1 n)
  show ?case
  proof (cases "n < 10")
    case True
    then show ?thesis
      by (subst toString.simps) (simp add: digits_value_def digit_of_digit_char)
  next
    case False
    with "1.IH" have "digits_value (toString (n div 10)) = n div 10" by simp
    with False show ?thesis
      by (subst toString.simps) (simp add: digits_value_snoc digit_of_digit_char)
  qed
qed

lemma length_toString: "0 < k \<Longrightarrow> n < 10 ^ k \<Longrightarrow> length (toString n) \<le> k"
proof (induction n arbitrary: k rule: toString.induct)
  case (1 n)
  show ?case
  proof (cases "n < 10")
    case True
    with "1.prems" show ?thesis
      by (subst toString.simps) simp
  next
    case False
    with "1.prems" obtain j where k: "k = Suc j" by (cases k) auto
    with False "1.prems" have "0 < j" by (cases j) auto
    moreover from k "1.prems" have "n div 10 < 10 ^ j"
      by (simp add: less_mult_imp_div_less mult.commute)
    ultimately have "length (toString (n div 10)) \<le> j"
      using "1.IH" [of j] False by simp
    with False k show ?thesis
      by (subst toString.simps) simp
  qed
qed

lemma stripTrailingZeros_zeros:
  "list_all (\<lambda>c. c = CHR ''0'') s \<Longrightarrow> stripTrailingZeros s = ''0''"
  by (simp add: stripTrailingZeros_def)

lemma all_zero_replicate: "list_all (\<lambda>c. c = CHR ''0'') s \<Longrightarrow> replicate (length s) CHR ''0'' = s"
  by (induction s) auto

lemma stripTrailingZeros_decomp:
  assumes nz: "\<not> list_all (\<lambda>c. c = CHR ''0'') s"
  shows "stripTrailingZeros s @ replicate (length s - length (stripTrailingZeros s)) CHR ''0'' = s"
proof -
  let ?P = "\<lambda>c. c = CHR ''0''"
  let ?t = "takeWhile ?P (rev s)"
  let ?d = "dropWhile ?P (rev s)"
  have strip: "stripTrailingZeros s = rev ?d"
    using nz by (simp add: stripTrailingZeros_def)
  have "rev (?t @ ?d) = rev (rev s)"
    by (simp only: takeWhile_dropWhile_id)
  then have split: "rev ?d @ rev ?t = s"
    by (simp only: rev_append rev_rev_ident)
  have "list_all ?P (rev ?t)"
    by (simp add: list_all_iff) (meson set_takeWhileD)
  from all_zero_replicate [OF this]
  have zeros: "replicate (length ?t) CHR ''0'' = rev ?t"
    by (simp only: length_rev)
  have "length (rev s) = length ?t + length ?d"
    by (simp only: length_append [symmetric] takeWhile_dropWhile_id)
  then have len: "length ?t = length s - length (rev ?d)"
    by simp
  have "rev ?d @ replicate (length s - length (rev ?d)) CHR ''0'' = rev ?d @ rev ?t"
    using zeros len by simp
  with split show ?thesis
    by (simp only: strip)
qed

lemma stripTrailingZeros_value:
  assumes "s \<noteq> []"
  shows "digits_value (stripTrailingZeros s) * 10 ^ (length s - length (stripTrailingZeros s)) = digits_value s"
proof (cases "list_all (\<lambda>c. c = CHR ''0'') s")
  case True
  have "digits_value (replicate (length s) CHR ''0'') = 0"
    by (rule digits_value_zeros)
  then have "digits_value s = 0"
    by (simp only: all_zero_replicate [OF True])
  moreover have "digits_value (stripTrailingZeros s) = 0"
    using True by (simp add: stripTrailingZeros_zeros digits_value_def digit_of_def)
  ultimately show ?thesis by simp
next
  case False
  let ?k = "length s - length (stripTrailingZeros s)"
  have "digits_value (stripTrailingZeros s @ replicate ?k CHR ''0'') = digits_value (stripTrailingZeros s) * 10 ^ ?k"
    by (simp add: digits_value_append digits_value_zeros)
  then show ?thesis
    by (simp only: stripTrailingZeros_decomp [OF False])
qed

lemma stripTrailingZeros_no_point:
  assumes "CHR ''.'' \<notin> set s"
  shows "CHR ''.'' \<notin> set (stripTrailingZeros s)"
proof (cases "list_all (\<lambda>c. c = CHR ''0'') s")
  case True
  then show ?thesis by (simp add: stripTrailingZeros_zeros)
next
  case False
  have "set (dropWhile (\<lambda>c. c = CHR ''0'') (rev s)) \<subseteq> set (rev s)"
    by (auto dest: set_dropWhileD)
  with assms False show ?thesis by (auto simp: stripTrailingZeros_def)
qed

lemma stripTrailingZeros_nonzero:
  "\<not> list_all (\<lambda>c. c = CHR ''0'') s \<Longrightarrow> \<not> list_all (\<lambda>c. c = CHR ''0'') (stripTrailingZeros s)"
proof
  assume nz: "\<not> list_all (\<lambda>c. c = CHR ''0'') s"
    and z: "list_all (\<lambda>c. c = CHR ''0'') (stripTrailingZeros s)"
  have "set (stripTrailingZeros s @ replicate (length s - length (stripTrailingZeros s)) CHR ''0'') = set s"
    by (simp only: stripTrailingZeros_decomp [OF nz])
  then have "set (stripTrailingZeros s) \<union> set (replicate (length s - length (stripTrailingZeros s)) CHR ''0'') = set s"
    by (simp only: set_append)
  moreover from z have "\<forall>c\<in>set (stripTrailingZeros s). c = CHR ''0''"
    by (simp add: list_all_iff)
  ultimately have "\<forall>c\<in>set s. c = CHR ''0''"
    by (metis Un_iff in_set_replicate)
  then have "list_all (\<lambda>c. c = CHR ''0'') s"
    by (simp add: list_all_iff)
  with nz show False by simp
qed

lemma padStart_value: "digits_value (padStart k s) = digits_value s"
  by (simp add: padStart_def digits_value_append digits_value_zeros)

lemma length_padStart: "length s \<le> k \<Longrightarrow> length (padStart k s) = k"
  by (simp add: padStart_def)

lemma toString_has_nonzero:
  assumes "0 < n"
  shows "\<exists>c\<in>set (toString n). c \<noteq> CHR ''0'' \<and> c \<noteq> CHR ''.''"
proof -
  have "hd (toString n) \<in> set (toString n)"
    by (simp add: toString_not_Nil)
  moreover have "hd (toString n) \<noteq> CHR ''0''"
    using assms by (rule toString_hd)
  moreover have "hd (toString n) \<noteq> CHR ''.''"
    using calculation(1) toString_no_point [of n] by metis
  ultimately show ?thesis by blast
qed

lemma fraction_no_point:
  "CHR ''.'' \<notin> set (stripTrailingZeros (padStart k (toString n)))"
  by (rule stripTrailingZeros_no_point) (simp add: padStart_def toString_no_point)

lemma fraction_has_nonzero:
  assumes "0 < n"
  shows "\<exists>c\<in>set (stripTrailingZeros (padStart k (toString n))). c \<noteq> CHR ''0'' \<and> c \<noteq> CHR ''.''"
proof -
  from toString_has_nonzero [OF assms]
  obtain c where "c \<in> set (toString n)" "c \<noteq> CHR ''0''" by blast
  then have "\<not> list_all (\<lambda>c. c = CHR ''0'') (padStart k (toString n))"
    by (auto simp: padStart_def list_all_iff)
  then have "\<not> list_all (\<lambda>c. c = CHR ''0'') (stripTrailingZeros (padStart k (toString n)))"
    by (rule stripTrailingZeros_nonzero)
  then obtain d where "d \<in> set (stripTrailingZeros (padStart k (toString n)))" "d \<noteq> CHR ''0''"
    by (auto simp: list_all_iff)
  moreover from this fraction_no_point [of k n] have "d \<noteq> CHR ''.''" by metis
  ultimately show ?thesis by blast
qed

lemma formatUnits_nonzero:
  assumes "0 < v" and "formatUnits v decimals = Inr q"
  shows "\<not> quantity_is_zero q"
proof -
  have "\<exists>c\<in>set q. c \<noteq> CHR ''0'' \<and> c \<noteq> CHR ''.''"
  proof (cases "decimals = 0")
    case True
    with assms have "q = toString v" by (simp add: formatUnits_def)
    with toString_has_nonzero [OF assms(1)] show ?thesis by simp
  next
    case False
    with assms(2) have le: "decimals \<le> 256"
      and q: "q = toString (v div 10 ^ decimals) @ ''.'' @
                  stripTrailingZeros (padStart decimals (toString (v mod 10 ^ decimals)))"
      by (auto simp: formatUnits_def split: if_splits)
    show ?thesis
    proof (cases "0 < v div 10 ^ decimals")
      case True
      from toString_has_nonzero [OF True] show ?thesis by (auto simp: q)
    next
      case False
      then have "v < 10 ^ decimals" by (simp add: div_eq_0_iff)
      with assms(1) have "0 < v mod 10 ^ decimals" by simp
      from fraction_has_nonzero [OF this, of decimals] show ?thesis by (auto simp: q)
    qed
  qed
  then show ?thesis by (auto simp: quantity_is_zero_def list_all_iff)
qed

lemma quantity_units_whole:
  assumes "CHR ''.'' \<notin> set ws"
  shows "quantity_units ws decimals = digits_value ws * 10 ^ decimals"
proof -
  have tw: "takeWhile (\<lambda>c. c \<noteq> CHR ''.'') ws = ws"
    using assms by (auto simp: takeWhile_eq_all_conv)
  show ?thesis unfolding quantity_units_def tw by (simp add: digits_value_Nil)
qed

lemma quantity_units_point:
  assumes "CHR ''.'' \<notin> set ws"
  shows "quantity_units (ws @ ''.'' @ fs) decimals =
         digits_value ws * 10 ^ decimals + digits_value fs * 10 ^ (decimals - length fs)"
proof -
  have "takeWhile (\<lambda>c. c \<noteq> CHR ''.'') ws = ws"
    using assms by (auto simp: takeWhile_eq_all_conv)
  then have tw: "takeWhile (\<lambda>c. c \<noteq> CHR ''.'') (ws @ ''.'' @ fs) = ws"
    by (simp add: takeWhile_tail)
  show ?thesis unfolding quantity_units_def tw by simp
qed

lemma formatUnits_units:
  assumes "decimals \<le> 256"
  shows "\<exists>q. formatUnits v decimals = Inr q \<and> quantity_units q decimals = v"
proof (cases "decimals = 0")
  case True
  then show ?thesis
    by (simp add: formatUnits_def quantity_units_whole toString_no_point digits_value_toString)
next
  case False
  let ?m = "v mod 10 ^ decimals"
  let ?p = "padStart decimals (toString ?m)"
  let ?f = "stripTrailingZeros ?p"
  have "length (toString ?m) \<le> decimals"
    using False by (intro length_toString) simp_all
  then have len: "length ?p = decimals" by (rule length_padStart)
  with False have "?p \<noteq> []" by auto
  from stripTrailingZeros_value [OF this]
  have frac: "digits_value ?f * 10 ^ (decimals - length ?f) = ?m"
    unfolding len padStart_value digits_value_toString .
  have "quantity_units (toString (v div 10 ^ decimals) @ ''.'' @ ?f) decimals =
        digits_value (toString (v div 10 ^ decimals)) * 10 ^ decimals
        + digits_value ?f * 10 ^ (decimals - length ?f)"
    by (rule quantity_units_point) (rule toString_no_point)
  also have "\<dots> = v div 10 ^ decimals * 10 ^ decimals + ?m"
    by (simp only: frac digits_value_toString)
  also have "\<dots> = v"
    by (rule div_mult_mod_eq)
  finally show ?thesis using assms False by (simp add: formatUnits_def)
qed

section \<open>The wait and the switch\<close>

text \<open>
  The outcome of the wait, the world it leaves, and from these the outcome and the calls of
  \<open>switchChain\<close> on each of its paths.
\<close>

lemma handleNetworkChange_fst:
  "fst (handleNetworkChange t es act) = (t \<in> set (map snd (takeWhile (\<lambda>e. fst e < 3000) es)))"
  by (induction t es act rule: handleNetworkChange.induct)
     (force simp: NETWORK_CHANGE_TIMEOUT_def)+

lemma handleNetworkChange_snd:
  "fst (handleNetworkChange t es act) \<Longrightarrow> snd (handleNetworkChange t es act) = t"
  by (induction t es act rule: handleNetworkChange.induct) (auto split: if_splits)

lemma waitForNetworkChange_fst:
  "fst (waitForNetworkChange w t s) =
     (if has_ethereum w \<and> notified w t then Inr () else Inl (Error ''Network change timeout''))"
  by (simp add: waitForNetworkChange_def Let_def handleNetworkChange_fst notified_def)

lemma fresh_remove:
  "fresh_ids s \<Longrightarrow> removeAll (next_id s) (timers s @ [next_id s]) = timers s"
  "fresh_ids s \<Longrightarrow> remove1 (Suc (next_id s)) (listeners s @ [Suc (next_id s)]) = listeners s"
  by (auto simp: fresh_ids_def list_all_iff remove1_append remove1_idem)

lemma waitForNetworkChange_snd:
  assumes "has_ethereum w" "fresh_ids s"
  shows "snd (waitForNetworkChange w t s) =
     s\<lparr>next_id := Suc (Suc (next_id s)),
       active := snd (handleNetworkChange t (chainChanged w t) (active s)),
       calls := calls s @ [SetTimeout (next_id s) 3000, On_chainChanged (Suc (next_id s)),
                           ClearTimeout (next_id s), RemoveListener_chainChanged (Suc (next_id s))]\<rparr>"
  using assms fresh_remove [OF assms(2)]
  by (simp add: waitForNetworkChange_def Let_def cleanup_def emit_def NETWORK_CHANGE_TIMEOUT_def)

lemma waitForNetworkChange_next_id:
  "next_id (snd (waitForNetworkChange w t s)) = Suc (Suc (next_id s))"
  by (simp add: waitForNetworkChange_def Let_def cleanup_def emit_def)

lemma waitForNetworkChange_active:
  "has_ethereum w \<Longrightarrow> notified w t \<Longrightarrow> active (snd (waitForNetworkChange w t s)) = t"
  by (simp add: waitForNetworkChange_def Let_def cleanup_def emit_def notified_def
        handleNetworkChange_fst handleNetworkChange_snd)

lemma waitForNetworkChange_console:
  "console (snd (waitForNetworkChange w t s)) = console s"
  by (simp add: waitForNetworkChange_def Let_def cleanup_def emit_def)

lemma find_chain_None:
  "find (\<lambda>c. chainId c = cid) SUPPORTED_CHAINS = None \<longleftrightarrow> cid \<notin> set (map chainId SUPPORTED_CHAINS)"
  by (auto simp: find_None_iff)

lemma find_chain_Some:
  "find (\<lambda>c. chainId c = cid) SUPPORTED_CHAINS = Some c \<Longrightarrow> c \<in> set SUPPORTED_CHAINS \<and> chainId c = cid"
  by (auto simp: find_Some_iff in_set_conv_nth)

lemma code_4902_not_Nullish: "err_code e = Some 4902 \<Longrightarrow> e \<noteq> Nullish"
  by auto

lemma switchChain_catch_plain:
  "e \<noteq> Nullish \<Longrightarrow> err_code e \<noteq> Some 4902 \<Longrightarrow> switchChain_catch w cid e s = (Inl e, s)"
  by (simp add: switchChain_catch_def code_4902_not_Nullish)

lemma switchChain_catch_nullish:
  "switchChain_catch w cid Nullish s = (Inl TypeError_reading_code, s)"
  by (simp add: switchChain_catch_def code_4902_not_Nullish)

lemma switchChain_catch_timeout:
  "switchChain_catch w cid (Error ''Network change timeout'') s = (Inl (Error ''Network change timeout''), s)"
  by (simp add: switchChain_catch_def code_4902_not_Nullish Error_def)

lemma switchChain_fst_succeeds:
  assumes "switch_succeeds w cid"
  shows "fst (switchChain w cid s) = Inr \<lparr>handle = Suc (Suc (next_id s)), network = cid\<rparr>"
proof -
  from assms have eth: "has_ethereum w" and nt: "notified w cid" and rw: "reaches_wait w cid"
    by (simp_all add: switch_succeeds_def)
  show ?thesis
  proof (cases "switchEthereumChain w cid")
    case None
    with eth nt show ?thesis
      by (simp add: switchChain_def request_switchEthereumChain_def prod.case_eq_if
            waitForNetworkChange_fst new_Web3Provider_def waitForNetworkChange_next_id
            waitForNetworkChange_active emit_def)
  next
    case (Some e)
    with rw have code: "err_code e = Some 4902" and add: "addEthereumChain w cid = None"
      and "find (\<lambda>c. chainId c = cid) SUPPORTED_CHAINS \<noteq> None"
      by (simp_all add: reaches_wait_def find_chain_None)
    then obtain c where c: "find (\<lambda>c. chainId c = cid) SUPPORTED_CHAINS = Some c" by auto
    from find_chain_Some [OF c] have "chainId c = cid" by simp
    with Some eth nt code add c show ?thesis
      by (simp add: switchChain_def request_switchEthereumChain_def switchChain_catch_def code_4902_not_Nullish
            request_addEthereumChain_def prod.case_eq_if
            waitForNetworkChange_fst new_Web3Provider_def waitForNetworkChange_next_id
            waitForNetworkChange_active emit_def)
  qed
qed

lemma switchChain_fst_error:
  assumes "\<not> switch_succeeds w cid"
  shows "\<exists>e. \<forall>s. fst (switchChain w cid s) = Inl e"
proof (cases "has_ethereum w")
  case False
  then have "\<forall>s. fst (switchChain w cid s) = Inl (Error ''Network change timeout'')"
    by (simp add: switchChain_def request_switchEthereumChain_def prod.case_eq_if
          waitForNetworkChange_fst switchChain_catch_timeout)
  then show ?thesis ..
next
  case eth: True
  show ?thesis
  proof (cases "switchEthereumChain w cid")
    case None
    with assms eth have "\<not> notified w cid" by (simp add: switch_succeeds_def reaches_wait_def)
    with None eth have "\<forall>s. fst (switchChain w cid s) = Inl (Error ''Network change timeout'')"
      by (simp add: switchChain_def request_switchEthereumChain_def prod.case_eq_if
            waitForNetworkChange_fst switchChain_catch_timeout)
    then show ?thesis ..
  next
    case (Some e)
    show ?thesis
    proof (cases "err_code e = Some 4902")
      case False
      show ?thesis
      proof (cases "e = Nullish")
        case True
        with Some eth have "\<forall>s. fst (switchChain w cid s) = Inl TypeError_reading_code"
          by (simp add: switchChain_def request_switchEthereumChain_def switchChain_catch_nullish)
        then show ?thesis ..
      next
        case notnull: False
        with False Some eth have "\<forall>s. fst (switchChain w cid s) = Inl e"
          by (simp add: switchChain_def request_switchEthereumChain_def switchChain_catch_plain)
        then show ?thesis ..
      qed
    next
      case code: True
      show ?thesis
      proof (cases "find (\<lambda>c. chainId c = cid) SUPPORTED_CHAINS")
        case None
        with Some eth code have "\<forall>s. fst (switchChain w cid s) = Inl e"
          by (simp add: switchChain_def request_switchEthereumChain_def switchChain_catch_def code_4902_not_Nullish)
        then show ?thesis ..
      next
        case (Some c)
        from find_chain_Some [OF Some] have cid: "chainId c = cid" "cid \<in> set (map chainId SUPPORTED_CHAINS)"
          by auto
        show ?thesis
        proof (cases "addEthereumChain w cid")
          case None
          with assms eth code cid \<open>switchEthereumChain w cid = Some e\<close>
          have "\<not> notified w cid" by (simp add: switch_succeeds_def reaches_wait_def)
          with None Some eth code cid \<open>switchEthereumChain w cid = Some e\<close>
          have "\<forall>s. fst (switchChain w cid s) = Inl (Error ''Network change timeout'')"
            by (simp add: switchChain_def request_switchEthereumChain_def switchChain_catch_def code_4902_not_Nullish
                  request_addEthereumChain_def prod.case_eq_if waitForNetworkChange_fst)
          then show ?thesis ..
        next
          case (Some e')
          with \<open>find (\<lambda>c. chainId c = cid) SUPPORTED_CHAINS = Some c\<close> eth code cid
            \<open>switchEthereumChain w cid = Some e\<close>
          have "\<forall>s. fst (switchChain w cid s) = Inl e'"
            by (simp add: switchChain_def request_switchEthereumChain_def switchChain_catch_def code_4902_not_Nullish
                  request_addEthereumChain_def)
          then show ?thesis ..
        qed
      qed
    qed
  qed
qed

lemma switchChain_fst_fails:
  assumes "\<not> switch_succeeds w cid"
  shows "isl (fst (switchChain w cid s))"
  using switchChain_fst_error [OF assms] by auto

lemma switchChain_fst_indep:
  assumes "\<not> switch_succeeds w cid"
  shows "fst (switchChain w cid s) = fst (switchChain w cid world0)"
  using switchChain_fst_error [OF assms] by auto

lemma waitForNetworkChange_calls:
  "has_ethereum w \<Longrightarrow> calls (snd (waitForNetworkChange w t s)) =
     calls s @ [SetTimeout (next_id s) 3000, On_chainChanged (Suc (next_id s)),
                ClearTimeout (next_id s), RemoveListener_chainChanged (Suc (next_id s))]"
  by (simp add: waitForNetworkChange_def Let_def cleanup_def emit_def NETWORK_CHANGE_TIMEOUT_def)

lemma waitForNetworkChange_frame:
  assumes "has_ethereum w" "fresh_ids s"
  shows "listeners (snd (waitForNetworkChange w t s)) = listeners s"
    and "timers (snd (waitForNetworkChange w t s)) = timers s"
    and "fresh_ids (snd (waitForNetworkChange w t s))"
  using assms by (auto simp: waitForNetworkChange_snd fresh_ids_def list_all_iff)

lemma new_Web3Provider_frame:
  "listeners (snd (new_Web3Provider w s)) = listeners s"
  "timers (snd (new_Web3Provider w s)) = timers s"
  "console (snd (new_Web3Provider w s)) = console s"
  "fresh_ids s \<Longrightarrow> fresh_ids (snd (new_Web3Provider w s))"
  by (auto simp: new_Web3Provider_def emit_def fresh_ids_def list_all_iff)

lemma emit_frame:
  "listeners (emit cs s) = listeners s" "timers (emit cs s) = timers s"
  "console (emit cs s) = console s" "next_id (emit cs s) = next_id s"
  "active (emit cs s) = active s" "calls (emit cs s) = calls s @ cs"
  "fresh_ids (emit cs s) = fresh_ids s"
  by (simp_all add: emit_def fresh_ids_def)

lemma switchChain_frame:
  assumes "has_ethereum w" "fresh_ids s"
  shows "listeners (snd (switchChain w cid s)) = listeners s \<and>
         timers (snd (switchChain w cid s)) = timers s \<and>
         fresh_ids (snd (switchChain w cid s))"
  using assms
  by (auto simp: switchChain_def switchChain_catch_def code_4902_not_Nullish request_switchEthereumChain_def
        request_addEthereumChain_def prod.case_eq_if waitForNetworkChange_fst
        waitForNetworkChange_frame new_Web3Provider_frame emit_frame Error_def
      split: option.splits sum.splits)

lemma new_Web3Provider_calls:
  "has_ethereum w \<Longrightarrow> calls (snd (new_Web3Provider w s)) = calls s @ [New_Web3Provider (next_id s)]"
  by (simp add: new_Web3Provider_def emit_def)

lemma new_calls_append: "calls s' = calls s @ cs \<Longrightarrow> new_calls s s' = cs"
  by (simp add: new_calls_def)

lemma switchChain_calls_direct:
  assumes "has_ethereum w" "switchEthereumChain w cid = None"
  shows "new_calls s (snd (switchChain w cid s)) =
     [Request_switchEthereumChain cid,
      SetTimeout (next_id s) 3000, On_chainChanged (Suc (next_id s)),
      ClearTimeout (next_id s), RemoveListener_chainChanged (Suc (next_id s))]
     @ (if notified w cid then [New_Web3Provider (Suc (Suc (next_id s)))] else [])"
  using assms
  by (intro new_calls_append)
     (simp add: switchChain_def request_switchEthereumChain_def prod.case_eq_if
        waitForNetworkChange_fst waitForNetworkChange_calls waitForNetworkChange_next_id
        new_Web3Provider_calls new_Web3Provider_def emit_frame switchChain_catch_timeout)

lemma switchChain_calls_added:
  assumes "has_ethereum w" "switchEthereumChain w cid = Some e" "err_code e = Some 4902"
    and "find (\<lambda>c. chainId c = cid) SUPPORTED_CHAINS = Some c" "addEthereumChain w cid = None"
  shows "new_calls s (snd (switchChain w cid s)) =
     [Request_switchEthereumChain cid,
      Request_addEthereumChain cid (name c) [rpc c] (nativeCurrency c),
      SetTimeout (next_id s) 3000, On_chainChanged (Suc (next_id s)),
      ClearTimeout (next_id s), RemoveListener_chainChanged (Suc (next_id s))]
     @ (if notified w cid then [New_Web3Provider (Suc (Suc (next_id s)))] else [])"
  using assms find_chain_Some [OF assms(4)]
  by (intro new_calls_append)
     (simp add: switchChain_def request_switchEthereumChain_def switchChain_catch_def code_4902_not_Nullish
        request_addEthereumChain_def prod.case_eq_if
        waitForNetworkChange_fst waitForNetworkChange_calls waitForNetworkChange_next_id
        new_Web3Provider_calls new_Web3Provider_def emit_frame)

lemma switchChain_calls_add_rejected:
  assumes "has_ethereum w" "switchEthereumChain w cid = Some e" "err_code e = Some 4902"
    and "find (\<lambda>c. chainId c = cid) SUPPORTED_CHAINS = Some c" "addEthereumChain w cid = Some e'"
  shows "new_calls s (snd (switchChain w cid s)) =
     [Request_switchEthereumChain cid,
      Request_addEthereumChain cid (name c) [rpc c] (nativeCurrency c)]"
    and "fst (switchChain w cid s) = Inl e'"
  using assms find_chain_Some [OF assms(4)]
  by (simp_all add: new_calls_def switchChain_def request_switchEthereumChain_def switchChain_catch_def code_4902_not_Nullish
        request_addEthereumChain_def emit_frame)

lemma switchChain_calls_rejected:
  assumes "has_ethereum w" "switchEthereumChain w cid = Some e"
    and "err_code e \<noteq> Some 4902 \<or> find (\<lambda>c. chainId c = cid) SUPPORTED_CHAINS = None"
  shows "new_calls s (snd (switchChain w cid s)) = [Request_switchEthereumChain cid]"
    and "fst (switchChain w cid s) = Inl (if e = Nullish then TypeError_reading_code else e)"
  using assms
  by (auto simp: new_calls_def switchChain_def request_switchEthereumChain_def switchChain_catch_def
        emit_frame)

section \<open>The holdings of an account\<close>

text \<open>
  The loop over the chains returns the holdings of the networks it could switch to, one
  block per network in the order of the list; it only ever adds to the console and to the
  calls, and it leaves listeners and timers as they were.
\<close>

lemma getNativeTokenBalance_fst:
  "fst (getNativeTokenBalance w p addr c s) =
   fst (getNativeTokenBalance w (provider_on (network p)) addr c world0)"
  by (simp add: getNativeTokenBalance_def provider_on_def split: sum.splits)

lemma getTokenBalance_fst:
  "fst (getTokenBalance w p t addr nm s) =
   fst (getTokenBalance w (provider_on (network p)) t addr nm world0)"
  by (simp add: getTokenBalance_def provider_on_def Let_def split: sum.splits prod.splits)

lemma tokenBalances_all_fst:
  "fst (tokenBalances_all w p addr nm toks s) =
   map (\<lambda>t. fst (getTokenBalance w (provider_on (network p)) (token_address t) addr nm world0)) toks"
proof (induction toks arbitrary: s)
  case Nil
  then show ?case by simp
next
  case (Cons t toks)
  have "fst (getTokenBalance w p (token_address t) addr nm s) =
        fst (getTokenBalance w (provider_on (network p)) (token_address t) addr nm world0)"
    by (rule getTokenBalance_fst)
  with Cons.IH show ?case
    by (simp add: prod.case_eq_if)
qed

lemma token_read_fun:
  "token_read w addr c =
   (\<lambda>t. fst (getTokenBalance w (provider_on (chainId c)) (token_address t) addr (name c) world0))"
  by (rule ext) (simp add: token_read_def)

lemma chains_loop_fst:
  assumes "has_ethereum w"
  shows "fst (chains_loop w addr cs hs s) = hs @ concat (map (network_holdings w addr) cs)"
proof (induction cs arbitrary: hs s)
  case Nil
  then show ?case by simp
next
  case (Cons c cs)
  show ?case
  proof (cases "switch_succeeds w (chainId c)")
    case True
    let ?p = "\<lparr>handle = Suc (Suc (next_id s)), network = chainId c\<rparr>"
    from switchChain_fst_succeeds [OF True, of s]
    obtain s1 where sw: "switchChain w (chainId c) s = (Inr ?p, s1)"
      by (cases "switchChain w (chainId c) s") simp
    have nat: "(case fst (getNativeTokenBalance w ?p addr c s1) of None \<Rightarrow> [] | Some h \<Rightarrow> [h]) = native_read w addr c"
      by (subst getNativeTokenBalance_fst) (simp add: native_read_def)
    have tok: "map the (filter (\<lambda>b. b \<noteq> None)
                 (fst (tokenBalances_all w ?p addr (name c) (getCommonTokensForChain (chainId c)) s2)))
               = token_reads w addr c" for s2
      by (simp add: tokenBalances_all_fst token_reads_def token_read_fun)
    show ?thesis
      using True by (simp add: sw prod.case_eq_if Cons.IH nat tok network_holdings_def del: not_None_eq)
  next
    case False
    from switchChain_fst_fails [OF False, of s]
    obtain e s1 where sw: "switchChain w (chainId c) s = (Inl e, s1)"
      by (cases "switchChain w (chainId c) s") (auto simp: isl_def)
    show ?thesis
      using False by (simp add: sw Cons.IH network_holdings_def)
  qed
qed

lemma getAccountHoldings_fst:
  assumes "has_window w" "has_ethereum w"
  shows "fst (getAccountHoldings w addr s) = Inr (concat (map (network_holdings w addr) SUPPORTED_CHAINS))"
  using assms chains_loop_fst [OF assms(2), of addr SUPPORTED_CHAINS "[]" s]
  by (simp add: getAccountHoldings_def prod.case_eq_if)

lemma console_error_console: "console (console_error m e s) = console s @ [(m, e)]"
  by (simp add: console_error_def)

lemma console_error_calls: "calls (console_error m e s) = calls s"
  by (simp add: console_error_def)

lemma switchChain_catch_console: "console (snd (switchChain_catch w cid e s)) = console s"
  by (simp add: switchChain_catch_def code_4902_not_Nullish request_addEthereumChain_def prod.case_eq_if
        waitForNetworkChange_console new_Web3Provider_frame emit_frame
      split: option.splits sum.splits)

lemma switchChain_console: "console (snd (switchChain w cid s)) = console s"
  by (simp add: switchChain_def request_switchEthereumChain_def prod.case_eq_if
        switchChain_catch_console waitForNetworkChange_console new_Web3Provider_frame emit_frame
      split: option.splits sum.splits)

lemma getNativeTokenBalance_console:
  "set (console s) \<subseteq> set (console (snd (getNativeTokenBalance w p addr c s)))"
  by (auto simp: getNativeTokenBalance_def console_error_console emit_frame split: sum.splits)

lemma getTokenBalance_console:
  "set (console s) \<subseteq> set (console (snd (getTokenBalance w p t addr nm s)))"
  by (auto simp: getTokenBalance_def Let_def console_error_console emit_frame split: sum.splits prod.splits)

lemma tokenBalances_all_console:
  "set (console s) \<subseteq> set (console (snd (tokenBalances_all w p addr nm toks s)))"
proof (induction toks arbitrary: s)
  case Nil
  then show ?case by simp
next
  case (Cons t toks)
  have "set (console s) \<subseteq> set (console (snd (getTokenBalance w p (token_address t) addr nm s)))"
    by (rule getTokenBalance_console)
  also have "\<dots> \<subseteq> set (console (snd (tokenBalances_all w p addr nm toks
                        (snd (getTokenBalance w p (token_address t) addr nm s)))))"
    by (rule Cons.IH)
  finally show ?case by (simp add: prod.case_eq_if)
qed

lemma delay_frame:
  "console (delay ms s) = console s" "calls (delay ms s) = calls s @ [SetTimeout (next_id s) ms]"
  "listeners (delay ms s) = listeners s" "timers (delay ms s) = timers s"
  by (simp_all add: delay_def emit_def)

lemma chains_loop_console:
  "set (console s) \<subseteq> set (console (snd (chains_loop w addr cs hs s)))"
proof (induction cs arbitrary: hs s)
  case Nil
  then show ?case by simp
next
  case (Cons c cs)
  obtain r s1 where sw: "switchChain w (chainId c) s = (r, s1)" by (cases "switchChain w (chainId c) s")
  with switchChain_console [of w "chainId c" s] have c1: "console s1 = console s" by simp
  show ?case
  proof (cases r)
    case (Inl e)
    have "set (console s) \<subseteq> set (console (console_error (holdings_error_message c) e s1))"
      by (auto simp: console_error_console c1)
    also have "\<dots> \<subseteq> set (console (snd (chains_loop w addr cs hs
                   (console_error (holdings_error_message c) e s1))))"
      by (rule Cons.IH)
    finally show ?thesis by (simp add: sw Inl)
  next
    case (Inr p)
    let ?s2 = "snd (getNativeTokenBalance w p addr c s1)"
    let ?s3 = "snd (tokenBalances_all w p addr (name c) (getCommonTokensForChain (chainId c)) ?s2)"
    have "set (console s) \<subseteq> set (console ?s2)"
      using getNativeTokenBalance_console [of s1 w p addr c] by (simp add: c1)
    also have "\<dots> \<subseteq> set (console (delay 500 ?s3))"
      using tokenBalances_all_console [of ?s2] by (simp add: delay_frame)
    also have "\<dots> \<subseteq> set (console (snd (chains_loop w addr cs hs' (delay 500 ?s3))))" for hs'
      by (rule Cons.IH)
    finally show ?thesis by (simp add: sw Inr prod.case_eq_if)
  qed
qed

lemma chains_loop_logs:
  assumes "c \<in> set cs" "\<not> switch_succeeds w (chainId c)"
  shows "\<exists>e. fst (switchChain w (chainId c) world0) = Inl e \<and>
             (holdings_error_message c, e)
               \<in> set (console (snd (chains_loop w addr cs hs s)))"
  using assms(1)
proof (induction cs arbitrary: hs s)
  case Nil
  then show ?case by simp
next
  case (Cons d cs)
  obtain r s1 where sw: "switchChain w (chainId d) s = (r, s1)" by (cases "switchChain w (chainId d) s")
  show ?case
  proof (cases "d = c")
    case True
    from sw True have sw': "switchChain w (chainId c) s = (r, s1)" by simp
    from switchChain_fst_fails [OF assms(2), of s] sw' obtain e where r: "r = Inl e"
      by (auto simp: isl_def)
    with switchChain_fst_indep [OF assms(2), of s] sw'
    have e: "fst (switchChain w (chainId c) world0) = Inl e" by simp
    let ?s2 = "console_error (holdings_error_message c) e s1"
    have step: "chains_loop w addr (c # cs) hs s = chains_loop w addr cs hs ?s2"
      by (simp add: sw' r)
    have "(holdings_error_message c, e) \<in> set (console ?s2)"
      by (simp add: console_error_console)
    with chains_loop_console [of ?s2 w addr cs hs]
    have "(holdings_error_message c, e) \<in> set (console (snd (chains_loop w addr cs hs ?s2)))"
      by blast
    with e show ?thesis unfolding True step by blast
  next
    case False
    with Cons.prems have "c \<in> set cs" by simp
    from Cons.IH [OF this] show ?thesis
      by (cases r) (simp_all add: sw prod.case_eq_if)
  qed
qed

lemma getNativeTokenBalance_calls:
  "calls (snd (getNativeTokenBalance w p addr c s)) = calls s @ [Call_getBalance (network p) addr]"
  by (simp add: getNativeTokenBalance_def console_error_calls emit_frame split: sum.splits)

lemma getTokenBalance_calls:
  "calls (snd (getTokenBalance w p t addr nm s)) = calls s @ token_calls (network p) t addr"
  by (simp add: getTokenBalance_def Let_def console_error_calls emit_frame token_calls_def
      split: sum.splits prod.splits)

lemma tokenBalances_all_calls:
  "calls (snd (tokenBalances_all w p addr nm toks s)) =
   calls s @ concat (map (\<lambda>t. token_calls (network p) (token_address t) addr) toks)"
proof (induction toks arbitrary: s)
  case Nil
  then show ?case by simp
next
  case (Cons t toks)
  show ?case
    by (simp add: prod.case_eq_if Cons.IH getTokenBalance_calls)
qed

lemma switchChain_catch_no_reads:
  "has_ethereum w \<Longrightarrow> \<exists>X. calls (snd (switchChain_catch w cid e s)) = calls s @ X \<and> filter is_read X = []"
  by (simp add: switchChain_catch_def code_4902_not_Nullish request_addEthereumChain_def prod.case_eq_if
        waitForNetworkChange_calls new_Web3Provider_calls emit_frame is_read_def
      split: option.splits sum.splits)

lemma switchChain_no_reads:
  assumes "has_ethereum w"
  shows "\<exists>X. calls (snd (switchChain w cid s)) = calls s @ X \<and> filter is_read X = []"
proof -
  let ?s1 = "emit [Request_switchEthereumChain cid] s"
  show ?thesis
  proof (cases "switchEthereumChain w cid")
    case (Some e)
    from switchChain_catch_no_reads [OF assms, of cid e ?s1]
    obtain X where "calls (snd (switchChain_catch w cid e ?s1)) = calls ?s1 @ X" "filter is_read X = []"
      by blast
    then have "calls (snd (switchChain w cid s)) = calls s @ (Request_switchEthereumChain cid # X)
               \<and> filter is_read (Request_switchEthereumChain cid # X) = []"
      using assms Some by (simp add: switchChain_def request_switchEthereumChain_def emit_frame is_read_def)
    then show ?thesis by blast
  next
    case None
    let ?s2 = "snd (waitForNetworkChange w cid ?s1)"
    show ?thesis
    proof (cases "notified w cid")
      case True
      with assms None show ?thesis
        by (simp add: switchChain_def request_switchEthereumChain_def prod.case_eq_if
              waitForNetworkChange_fst waitForNetworkChange_calls new_Web3Provider_calls
              new_Web3Provider_def emit_frame is_read_def)
    next
      case False
      with assms None show ?thesis
        by (simp add: switchChain_def request_switchEthereumChain_def prod.case_eq_if
              waitForNetworkChange_fst waitForNetworkChange_calls switchChain_catch_timeout
              emit_frame is_read_def)
    qed
  qed
qed

lemma filter_is_read_read_calls: "filter is_read (read_calls cid addr) = read_calls cid addr"
  by (simp add: read_calls_def token_calls_def is_read_def filter_concat comp_def)

lemma is_read_simps:
  "is_read (Call_getBalance n a)" "is_read (Call_balanceOf n t a)"
  "is_read (Call_symbol n t)" "is_read (Call_decimals n t)"
  "\<not> is_read (SetTimeout i m)" "\<not> is_read (ClearTimeout i)"
  "\<not> is_read (On_chainChanged i)" "\<not> is_read (RemoveListener_chainChanged i)"
  "\<not> is_read (New_Web3Provider i)" "\<not> is_read (Request_switchEthereumChain n)"
  "\<not> is_read (Request_addEthereumChain n nm rs nc)" "\<not> is_read Request_requestAccounts"
  by (simp_all add: is_read_def)

lemma chains_loop_reads:
  assumes "has_ethereum w"
  shows "\<exists>X. calls (snd (chains_loop w addr cs hs s)) = calls s @ X \<and>
             filter is_read X =
               concat (map (\<lambda>c. if switch_succeeds w (chainId c) then read_calls (chainId c) addr else []) cs)"
proof (induction cs arbitrary: hs s)
  case Nil
  then show ?case by simp
next
  case (Cons c cs)
  let ?rest = "concat (map (\<lambda>c. if switch_succeeds w (chainId c) then read_calls (chainId c) addr else []) cs)"
  from switchChain_no_reads [OF assms, of "chainId c" s]
  obtain X1 where X1: "calls (snd (switchChain w (chainId c) s)) = calls s @ X1" "filter is_read X1 = []"
    by blast
  show ?case
  proof (cases "switch_succeeds w (chainId c)")
    case True
    let ?p = "\<lparr>handle = Suc (Suc (next_id s)), network = chainId c\<rparr>"
    from switchChain_fst_succeeds [OF True, of s]
    obtain s1 where sw: "switchChain w (chainId c) s = (Inr ?p, s1)"
      by (cases "switchChain w (chainId c) s") simp
    let ?s2 = "snd (getNativeTokenBalance w ?p addr c s1)"
    let ?s3 = "snd (tokenBalances_all w ?p addr (name c) (getCommonTokensForChain (chainId c)) ?s2)"
    let ?s4 = "delay 500 ?s3"
    let ?Y = "X1 @ read_calls (chainId c) addr @ [SetTimeout (next_id ?s3) 500]"
    from X1 sw have c1: "calls s1 = calls s @ X1" by simp
    have c4: "calls ?s4 = calls s @ ?Y"
      by (simp add: delay_frame tokenBalances_all_calls getNativeTokenBalance_calls c1 read_calls_def)
    have fY: "filter is_read ?Y = read_calls (chainId c) addr"
      by (simp add: X1 filter_is_read_read_calls is_read_def)
    let ?hs' = "hs @ (case fst (getNativeTokenBalance w ?p addr c s1) of None \<Rightarrow> [] | Some h \<Rightarrow> [h])
                  @ map the (filter (\<lambda>b. b \<noteq> None)
                      (fst (tokenBalances_all w ?p addr (name c) (getCommonTokensForChain (chainId c)) ?s2)))"
    have step: "chains_loop w addr (c # cs) hs s = chains_loop w addr cs ?hs' ?s4"
      by (simp add: sw prod.case_eq_if del: not_None_eq)
    from Cons.IH [of ?hs' ?s4]
    obtain X where X: "calls (snd (chains_loop w addr cs ?hs' ?s4)) = calls ?s4 @ X"
      "filter is_read X = ?rest" by blast
    have "calls (snd (chains_loop w addr (c # cs) hs s)) = calls s @ (?Y @ X)"
      unfolding step X(1) c4 by simp
    moreover have "filter is_read (?Y @ X) =
        concat (map (\<lambda>c. if switch_succeeds w (chainId c) then read_calls (chainId c) addr else []) (c # cs))"
      using True X(2) by (simp add: X1(2) filter_is_read_read_calls is_read_simps)
    ultimately show ?thesis by blast
  next
    case False
    from switchChain_fst_fails [OF False, of s]
    obtain e s1 where sw: "switchChain w (chainId c) s = (Inl e, s1)"
      by (cases "switchChain w (chainId c) s") (auto simp: isl_def)
    from X1 sw have c1: "calls (console_error (holdings_error_message c) e s1) = calls s @ X1"
      by (simp add: console_error_calls)
    from Cons.IH [of hs "console_error (holdings_error_message c) e s1"]
    obtain X where X: "calls (snd (chains_loop w addr cs hs (console_error (holdings_error_message c) e s1)))
                       = calls (console_error (holdings_error_message c) e s1) @ X"
      "filter is_read X = ?rest" by blast
    have "calls (snd (chains_loop w addr (c # cs) hs s)) = calls s @ (X1 @ X)"
      using X(1) by (simp add: sw c1)
    moreover have "filter is_read (X1 @ X) = concat (map (\<lambda>c. if switch_succeeds w (chainId c) then read_calls (chainId c) addr else []) (c # cs))"
      using False X(2) X1(2) by simp
    ultimately show ?thesis by blast
  qed
qed

lemma console_error_frame:
  "listeners (console_error m e s) = listeners s" "timers (console_error m e s) = timers s"
  "next_id (console_error m e s) = next_id s" "fresh_ids (console_error m e s) = fresh_ids s"
  by (simp_all add: console_error_def fresh_ids_def)

lemma getNativeTokenBalance_frame:
  "listeners (snd (getNativeTokenBalance w p addr c s)) = listeners s"
  "timers (snd (getNativeTokenBalance w p addr c s)) = timers s"
  "next_id (snd (getNativeTokenBalance w p addr c s)) = next_id s"
  by (simp_all add: getNativeTokenBalance_def console_error_frame emit_frame split: sum.splits)

lemma getTokenBalance_frame:
  "listeners (snd (getTokenBalance w p t addr nm s)) = listeners s"
  "timers (snd (getTokenBalance w p t addr nm s)) = timers s"
  "next_id (snd (getTokenBalance w p t addr nm s)) = next_id s"
  by (simp_all add: getTokenBalance_def Let_def console_error_frame emit_frame
      split: sum.splits prod.splits)

lemma tokenBalances_all_frame:
  "listeners (snd (tokenBalances_all w p addr nm toks s)) = listeners s \<and>
   timers (snd (tokenBalances_all w p addr nm toks s)) = timers s \<and>
   next_id (snd (tokenBalances_all w p addr nm toks s)) = next_id s"
  by (induction toks arbitrary: s) (simp_all add: prod.case_eq_if getTokenBalance_frame)

lemma fresh_ids_cong:
  "listeners s' = listeners s \<Longrightarrow> timers s' = timers s \<Longrightarrow> next_id s \<le> next_id s' \<Longrightarrow>
   fresh_ids s \<Longrightarrow> fresh_ids s'"
  by (auto simp: fresh_ids_def list_all_iff)

lemma chains_loop_frame:
  assumes "has_ethereum w"
  shows "fresh_ids s \<Longrightarrow>
         listeners (snd (chains_loop w addr cs hs s)) = listeners s \<and>
         timers (snd (chains_loop w addr cs hs s)) = timers s \<and>
         fresh_ids (snd (chains_loop w addr cs hs s))"
proof (induction cs arbitrary: hs s)
  case Nil
  then show ?case by simp
next
  case (Cons c cs)
  obtain r s1 where sw: "switchChain w (chainId c) s = (r, s1)" by (cases "switchChain w (chainId c) s")
  with switchChain_frame [OF assms Cons.prems, of "chainId c"]
  have f1: "listeners s1 = listeners s" "timers s1 = timers s" "fresh_ids s1" by simp_all
  show ?case
  proof (cases r)
    case (Inl e)
    let ?s2 = "console_error (holdings_error_message c) e s1"
    from f1 have "fresh_ids ?s2" by (simp add: console_error_frame)
    from Cons.IH [OF this, of hs] f1 show ?thesis
      by (simp add: sw Inl console_error_frame)
  next
    case (Inr p)
    let ?s2 = "snd (getNativeTokenBalance w p addr c s1)"
    let ?s3 = "snd (tokenBalances_all w p addr (name c) (getCommonTokensForChain (chainId c)) ?s2)"
    let ?s4 = "delay 500 ?s3"
    have l4: "listeners ?s4 = listeners s1" "timers ?s4 = timers s1" "next_id s1 \<le> next_id ?s4"
      by (simp_all add: delay_frame delay_def emit_def tokenBalances_all_frame getNativeTokenBalance_frame)
    with f1 have "fresh_ids ?s4" by (intro fresh_ids_cong [of ?s4 s1]) simp_all
    from Cons.IH [OF this] l4 f1 show ?thesis
      by (simp add: sw Inr prod.case_eq_if del: not_None_eq)
  qed
qed

lemma getNativeTokenBalance_nonzero:
  assumes "fst (getNativeTokenBalance w p addr c s) = Some h"
  shows "\<not> quantity_is_zero (quantity h)"
proof -
  from assms obtain balance q where b: "getBalance w (network p) addr = Inr balance" "balance \<noteq> 0"
    and q: "formatUnits (unat balance) (nc_decimals (nativeCurrency c)) = Inr q" "quantity h = q"
    by (auto simp: getNativeTokenBalance_def split: sum.splits if_splits)
  from b(2) have "0 < unat balance" by (simp add: unat_gt_0)
  from formatUnits_nonzero [OF this q(1)] q(2) show ?thesis by simp
qed

lemma getTokenBalance_nonzero:
  assumes "fst (getTokenBalance w p t addr nm s) = Some h"
  shows "\<not> quantity_is_zero (quantity h)"
proof -
  from assms obtain balance and d :: "8 word" and q
    where b: "balanceOf w (network p) t addr = Inr balance" "balance \<noteq> 0"
    and q: "formatUnits (unat balance) (unat d) = Inr q" "quantity h = q"
    by (auto simp: getTokenBalance_def Let_def promise_all3_def split: sum.splits if_splits prod.splits)
  from b(2) have "0 < unat balance" by (simp add: unat_gt_0)
  from formatUnits_nonzero [OF this q(1)] q(2) show ?thesis by simp
qed

lemma network_holdings_nonzero:
  assumes "h \<in> set (network_holdings w addr c)"
  shows "\<not> quantity_is_zero (quantity h)"
proof -
  from assms have "h \<in> set (native_read w addr c) \<or> h \<in> set (token_reads w addr c)"
    by (auto simp: network_holdings_def split: if_splits)
  then show ?thesis
  proof
    assume "h \<in> set (native_read w addr c)"
    then have "fst (getNativeTokenBalance w (provider_on (chainId c)) addr c world0) = Some h"
      by (auto simp: native_read_def split: option.splits)
    then show ?thesis by (rule getNativeTokenBalance_nonzero)
  next
    assume "h \<in> set (token_reads w addr c)"
    then obtain t where "token_read w addr c t = Some h"
      by (auto simp: token_reads_def)
    then show ?thesis unfolding token_read_def by (rule getTokenBalance_nonzero)
  qed
qed

lemma registry_ids:
  "chainId ETH_MAINNET = ''0x1''" "chainId BSC = ''0x38''"
  "chainId POLYGON = ''0x89''" "chainId ARBITRUM = ''0xa4b1''"
  by (simp_all add: ETH_MAINNET_def BSC_def POLYGON_def ARBITRUM_def)

lemma registry_names:
  "name ETH_MAINNET = ''ETHEREUM''" "name BSC = ''BNB CHAIN''"
  "name POLYGON = ''POLYGON''" "name ARBITRUM = ''ARBITRUM''"
  by (simp_all add: ETH_MAINNET_def BSC_def POLYGON_def ARBITRUM_def)

lemma registry_currency:
  "nativeCurrency ETH_MAINNET = \<lparr>nc_symbol = ''ETH'', nc_decimals = 18\<rparr>"
  "nativeCurrency BSC = \<lparr>nc_symbol = ''BNB'', nc_decimals = 18\<rparr>"
  "nativeCurrency POLYGON = \<lparr>nc_symbol = ''MATIC'', nc_decimals = 18\<rparr>"
  "nativeCurrency ARBITRUM = \<lparr>nc_symbol = ''ETH'', nc_decimals = 18\<rparr>"
  by (simp_all add: ETH_MAINNET_def BSC_def POLYGON_def ARBITRUM_def)

lemma find_registry:
  "find (\<lambda>c'. chainId c' = chainId ETH_MAINNET) SUPPORTED_CHAINS = Some ETH_MAINNET"
  "find (\<lambda>c'. chainId c' = chainId BSC) SUPPORTED_CHAINS = Some BSC"
  "find (\<lambda>c'. chainId c' = chainId POLYGON) SUPPORTED_CHAINS = Some POLYGON"
  "find (\<lambda>c'. chainId c' = chainId ARBITRUM) SUPPORTED_CHAINS = Some ARBITRUM"
  by (simp_all add: SUPPORTED_CHAINS_def registry_ids)

lemma registry_cases:
  "c \<in> set SUPPORTED_CHAINS \<Longrightarrow> c = ETH_MAINNET \<or> c = BSC \<or> c = POLYGON \<or> c = ARBITRUM"
  unfolding SUPPORTED_CHAINS_def by simp

lemma find_registry_chain:
  assumes "c \<in> set SUPPORTED_CHAINS"
  shows "find (\<lambda>c'. chainId c' = chainId c) SUPPORTED_CHAINS = Some c"
  using registry_cases [OF assms]
  by (elim disjE) (simp_all only: find_registry)

lemma switchChain_listener_calls:
  assumes "has_ethereum w"
  shows "filter (\<lambda>x. is_registration x \<or> is_deregistration x) (new_calls s (snd (switchChain w cid s))) =
           (if reaches_wait w cid
            then [On_chainChanged (Suc (next_id s)), RemoveListener_chainChanged (Suc (next_id s))]
            else []) \<and>
         filter is_timer_call (new_calls s (snd (switchChain w cid s))) =
           (if reaches_wait w cid
            then [SetTimeout (next_id s) 3000, ClearTimeout (next_id s)]
            else [])"
proof (cases "switchEthereumChain w cid")
  case None
  from switchChain_calls_direct [OF assms None, of s] None show ?thesis
    by (simp add: reaches_wait_def)
next
  case (Some e)
  show ?thesis
  proof (cases "err_code e \<noteq> Some 4902 \<or> find (\<lambda>c. chainId c = cid) SUPPORTED_CHAINS = None")
    case True
    from switchChain_calls_rejected(1) [OF assms Some True, of s] Some True show ?thesis
      by (auto simp: reaches_wait_def find_chain_None)
  next
    case False
    then obtain c where code: "err_code e = Some 4902"
      and c: "find (\<lambda>c. chainId c = cid) SUPPORTED_CHAINS = Some c" by auto
    from c have reg: "cid \<in> set (map chainId SUPPORTED_CHAINS)"
      using find_chain_None [of cid] by simp
    show ?thesis
    proof (cases "addEthereumChain w cid")
      case None
      from switchChain_calls_added [OF assms Some code c None, of s] Some code reg None
      show ?thesis by (simp add: reaches_wait_def)
    next
      case (Some e')
      from switchChain_calls_add_rejected(1) [OF assms \<open>switchEthereumChain w cid = Some e\<close> code c Some, of s]
        \<open>switchEthereumChain w cid = Some e\<close> code reg Some
      show ?thesis by (simp add: reaches_wait_def)
    qed
  qed
qed

lemma concat_map_remove1:
  "f c = [] \<Longrightarrow> concat (map f (remove1 c xs)) = concat (map f xs)"
  by (induction xs) auto

lemma native_read_chain: "h \<in> set (native_read w addr c) \<Longrightarrow> chain h = name c"
  by (auto simp: native_read_def getNativeTokenBalance_def split: option.splits sum.splits if_splits)

lemma token_reads_chain: "h \<in> set (token_reads w addr c) \<Longrightarrow> chain h = name c"
  by (auto simp: token_reads_def token_read_def getTokenBalance_def Let_def
      split: sum.splits if_splits prod.splits)

lemma network_holdings_chain: "h \<in> set (network_holdings w addr c) \<Longrightarrow> chain h = name c"
  by (auto simp: network_holdings_def native_read_chain token_reads_chain split: if_splits)

lemma accounts_all_fst:
  assumes "has_window w" "has_ethereum w"
  shows "fst (accounts_all w as s) =
         Inr (map (\<lambda>a. \<lparr>address = a, holdings = concat (map (network_holdings w a) SUPPORTED_CHAINS)\<rparr>) as)"
proof (induction as arbitrary: s)
  case Nil
  then show ?case by simp
next
  case (Cons a as)
  obtain s1 where g: "getAccountHoldings w a s = (Inr (concat (map (network_holdings w a) SUPPORTED_CHAINS)), s1)"
    using getAccountHoldings_fst [OF assms, of a s] by (cases "getAccountHoldings w a s") simp
  obtain s2 where r: "accounts_all w as s1 =
      (Inr (map (\<lambda>a. \<lparr>address = a, holdings = concat (map (network_holdings w a) SUPPORTED_CHAINS)\<rparr>) as), s2)"
    using Cons.IH [of s1] by (cases "accounts_all w as s1") simp
  show ?case by (simp add: g r)
qed

lemma connectMetaMask_fst:
  "fst (connectMetaMask w s) =
     (if \<not> has_window w then Inl (MetaMaskError ''MetaMask cannot be accessed server-side'')
      else if \<not> has_ethereum w then Inl (MetaMaskError ''MetaMask is not installed'')
      else case requestAccounts w of
             Inl e \<Rightarrow> Inl (connectMetaMask_catch e)
           | Inr as \<Rightarrow>
               if as = [] then Inl (MetaMaskError ''No accounts found'')
               else Inr (map (\<lambda>a. \<lparr>address = a,
                                    holdings = concat (map (network_holdings w a) SUPPORTED_CHAINS)\<rparr>) as))"
proof (cases "has_window w \<and> has_ethereum w")
  case False
  then show ?thesis by (auto simp: connectMetaMask_def)
next
  case True
  then have hw: "has_window w" and he: "has_ethereum w" by simp_all
  show ?thesis
  proof (cases "requestAccounts w")
    case (Inl e)
    with True show ?thesis by (simp add: connectMetaMask_def connectMetaMask_try_def)
  next
    case (Inr as)
    show ?thesis
    proof (cases "as = []")
      case True
      with Inr hw he show ?thesis
        by (simp add: connectMetaMask_def connectMetaMask_try_def connectMetaMask_catch_def MetaMaskError_def)
    next
      case False
      let ?s1 = "emit [Request_requestAccounts] s"
      from accounts_all_fst [OF hw he, of as ?s1]
      obtain s2 where "accounts_all w as ?s1 =
        (Inr (map (\<lambda>a. \<lparr>address = a, holdings = concat (map (network_holdings w a) SUPPORTED_CHAINS)\<rparr>) as), s2)"
        by (cases "accounts_all w as ?s1") simp
      with Inr False hw he show ?thesis
        by (simp add: connectMetaMask_def connectMetaMask_try_def)
    qed
  qed
qed

section \<open>Evaluation on the simulated wallet\<close>

lemma replicate_numeral: "replicate (numeral k) c = c # replicate (pred_numeral k) c"
  unfolding numeral_eq_Suc by simp

lemmas formatUnits_eval =
  formatUnits_def toString.simps digit_char_def padStart_def replicate_numeral stripTrailingZeros_def

lemma formatUnits_examples:
  "formatUnits 1000000000000000000 18 = Inr ''1.0''"
  "formatUnits 500000 6 = Inr ''0.5''"
  "formatUnits 2500000000000000000 18 = Inr ''2.5''"
  by (simp_all add: formatUnits_eval)

lemma demo_wallet_fields:
  "has_window demo_wallet" "has_ethereum demo_wallet"
  "requestAccounts demo_wallet = Inr [alice, bob]"
  "switchEthereumChain demo_wallet cid = (if cid = ''0x89'' then Some unrecognized_chain else None)"
  "addEthereumChain demo_wallet cid = None"
  "chainChanged demo_wallet cid = (if cid = ''0x38'' then [(120, ''0x1'')] else [(120, cid)])"
  by (simp_all add: demo_wallet_def)

lemma demo_switch:
  "switch_succeeds demo_wallet ''0x1''" "\<not> switch_succeeds demo_wallet ''0x38''"
  "switch_succeeds demo_wallet ''0x89''" "switch_succeeds demo_wallet ''0xa4b1''"
  by (simp_all add: switch_succeeds_def reaches_wait_def notified_def demo_wallet_fields
        unrecognized_chain_def SUPPORTED_CHAINS_def registry_ids)

lemma demo_native:
  "native_read demo_wallet alice ETH_MAINNET =
     [\<lparr>symbol = ''ETH'', chain = ''ETHEREUM'', quantity = ''1.0'', selected = False\<rparr>]"
  "native_read demo_wallet alice POLYGON =
     [\<lparr>symbol = ''MATIC'', chain = ''POLYGON'', quantity = ''2.5'', selected = False\<rparr>]"
  "native_read demo_wallet alice ARBITRUM = []"
  by (simp_all add: native_read_def getNativeTokenBalance_def provider_on_def demo_wallet_def
        alice_def ETH_MAINNET_def POLYGON_def ARBITRUM_def formatUnits_examples)

lemma demo_tokens:
  "token_reads demo_wallet alice ETH_MAINNET =
     [\<lparr>symbol = ''USD Coin'', chain = ''ETHEREUM'', quantity = ''0.5'', selected = False\<rparr>]"
  "token_reads demo_wallet alice POLYGON = []"
  "token_reads demo_wallet alice ARBITRUM = []"
  by (simp_all add: token_reads_def token_read_def getTokenBalance_def promise_all3_def
        provider_on_def demo_wallet_def getCommonTokensForChain_def
        alice_def ETH_MAINNET_def POLYGON_def ARBITRUM_def formatUnits_examples)

lemma demo_holdings:
  "fst (getAccountHoldings demo_wallet alice s) =
     Inr [\<lparr>symbol = ''ETH'', chain = ''ETHEREUM'', quantity = ''1.0'', selected = False\<rparr>,
          \<lparr>symbol = ''USD Coin'', chain = ''ETHEREUM'', quantity = ''0.5'', selected = False\<rparr>,
          \<lparr>symbol = ''MATIC'', chain = ''POLYGON'', quantity = ''2.5'', selected = False\<rparr>]"
  by (simp add: getAccountHoldings_fst demo_wallet_fields SUPPORTED_CHAINS_def network_holdings_def
        registry_ids demo_switch demo_native demo_tokens)

section \<open>Further facts about the switch and the reads\<close>

lemma switchChain_fst_timeout:
  assumes "has_ethereum w" "reaches_wait w cid" "\<not> notified w cid"
  shows "fst (switchChain w cid s) = Inl (Error ''Network change timeout'')"
proof (cases "switchEthereumChain w cid")
  case None
  with assms show ?thesis
    by (simp add: switchChain_def request_switchEthereumChain_def prod.case_eq_if
          waitForNetworkChange_fst switchChain_catch_timeout)
next
  case (Some e)
  with assms(2) have code: "err_code e = Some 4902" and add: "addEthereumChain w cid = None"
    and "find (\<lambda>c. chainId c = cid) SUPPORTED_CHAINS \<noteq> None"
    by (simp_all add: reaches_wait_def find_chain_None)
  then obtain c where c: "find (\<lambda>c. chainId c = cid) SUPPORTED_CHAINS = Some c" by auto
  from find_chain_Some [OF c] have "chainId c = cid" by simp
  with Some assms code add c show ?thesis
    by (simp add: switchChain_def request_switchEthereumChain_def switchChain_catch_def code_4902_not_Nullish
          request_addEthereumChain_def prod.case_eq_if waitForNetworkChange_fst)
qed

lemma getAccountHoldings_reads:
  assumes "has_window w" "has_ethereum w"
  shows "\<exists>X. calls (snd (getAccountHoldings w addr s)) = calls s @ X \<and>
             filter is_read X =
               concat (map (\<lambda>c. if switch_succeeds w (chainId c) then read_calls (chainId c) addr else [])
                        SUPPORTED_CHAINS)"
  using assms chains_loop_reads [OF assms(2), of addr SUPPORTED_CHAINS "[]" s]
  by (simp add: getAccountHoldings_def prod.case_eq_if)

lemma is_token_call_is_read: "is_token_call cid x \<Longrightarrow> is_read x"
  by (cases x) (simp_all add: is_read_def)

lemma filter_token_calls_read:
  "filter (is_token_call cid) X = filter (is_token_call cid) (filter is_read X)"
  by (induction X) (auto dest: is_token_call_is_read)

lemma no_token_calls:
  assumes "getCommonTokensForChain cid = []"
  shows "filter (is_token_call cid) (read_calls n addr) = []"
proof (cases "n = cid")
  case True
  with assms show ?thesis by (simp add: read_calls_def)
next
  case False
  then show ?thesis
    by (simp add: read_calls_def token_calls_def filter_concat comp_def)
qed

lemma getAccountHoldings_no_token_calls:
  assumes "has_window w" "has_ethereum w" "getCommonTokensForChain cid = []"
  shows "filter (is_token_call cid) (new_calls s (snd (getAccountHoldings w addr s))) = []"
proof -
  from getAccountHoldings_reads [OF assms(1,2), of addr s]
  obtain X where X: "calls (snd (getAccountHoldings w addr s)) = calls s @ X"
    "filter is_read X =
       concat (map (\<lambda>c. if switch_succeeds w (chainId c) then read_calls (chainId c) addr else [])
                SUPPORTED_CHAINS)" by blast
  have "filter (is_token_call cid) X = filter (is_token_call cid) (filter is_read X)"
    by (rule filter_token_calls_read)
  also have "\<dots> = []"
    unfolding X(2) by (auto simp: filter_concat comp_def no_token_calls [OF assms(3)] if_distrib [of "filter _"])
  finally show ?thesis by (simp add: new_calls_append [OF X(1)])
qed

section \<open>The known tokens\<close>

lemma registry_name_inj:
  assumes "c \<in> set SUPPORTED_CHAINS" "c' \<in> set SUPPORTED_CHAINS" "name c' = name c"
  shows "c' = c"
  using registry_cases [OF assms(1)] registry_cases [OF assms(2)] assms(3)
  by (elim disjE) (simp_all add: registry_names)

lemma native_read_symbol: "h \<in> set (native_read w addr c) \<Longrightarrow> symbol h = nc_symbol (nativeCurrency c)"
  by (auto simp: native_read_def getNativeTokenBalance_def split: option.splits sum.splits if_splits)

lemma length_native_read: "length (native_read w addr c) \<le> 1"
  by (simp add: native_read_def split: option.splits)

text \<open>
  C10. The known-token lists are non-empty only for Ethereum (\<open>0x1\<close>: USDC, USDT, WBTC)
  and BSC (\<open>0x38\<close>: USDC, USDT); \<open>getCommonTokensForChain\<close> returns the empty list for
  every other chain identifier. So on Polygon and Arbitrum the aggregation makes no token
  call at all, and whatever the result holds for such a network is its native holding.
\<close>

theorem common_tokens_only_ethereum_bsc:
  "map token_symbol (getCommonTokensForChain ''0x1'') = [''USDC'', ''USDT'', ''WBTC''] \<and>
   map token_symbol (getCommonTokensForChain ''0x38'') = [''USDC'', ''USDT''] \<and>
   (cid \<noteq> ''0x1'' \<longrightarrow> cid \<noteq> ''0x38'' \<longrightarrow> getCommonTokensForChain cid = []) \<and>
   (has_window w \<longrightarrow> has_ethereum w \<longrightarrow> c \<in> set SUPPORTED_CHAINS \<longrightarrow>
      chainId c \<noteq> ''0x1'' \<longrightarrow> chainId c \<noteq> ''0x38'' \<longrightarrow>
        network_holdings w addr c = (if switch_succeeds w (chainId c) then native_read w addr c else []) \<and>
        length (network_holdings w addr c) \<le> 1 \<and>
        filter (is_token_call (chainId c)) (new_calls s (snd (getAccountHoldings w addr s))) = [] \<and>
        (\<forall>hs h. fst (getAccountHoldings w addr s) = Inr hs \<longrightarrow> h \<in> set hs \<longrightarrow> chain h = name c \<longrightarrow>
                symbol h = nc_symbol (nativeCurrency c)))"
proof (intro conjI impI allI)
  show "map token_symbol (getCommonTokensForChain ''0x1'') = [''USDC'', ''USDT'', ''WBTC'']"
    by (simp add: getCommonTokensForChain_def)
  show "map token_symbol (getCommonTokensForChain ''0x38'') = [''USDC'', ''USDT'']"
    by (simp add: getCommonTokensForChain_def)
  show "getCommonTokensForChain cid = []" if "cid \<noteq> ''0x1''" "cid \<noteq> ''0x38''"
    using that by (simp add: getCommonTokensForChain_def)
next
  assume hw: "has_window w" and he: "has_ethereum w" and reg: "c \<in> set SUPPORTED_CHAINS"
    and ne: "chainId c \<noteq> ''0x1''" "chainId c \<noteq> ''0x38''"
  from ne have empty: "getCommonTokensForChain (chainId c) = []"
    by (simp add: getCommonTokensForChain_def)
  then have tok: "token_reads w addr c = []"
    by (simp add: token_reads_def)
  then show nh: "network_holdings w addr c = (if switch_succeeds w (chainId c) then native_read w addr c else [])"
    by (simp add: network_holdings_def)
  show "length (network_holdings w addr c) \<le> 1"
    unfolding nh using length_native_read [of w addr c] by simp
  show "filter (is_token_call (chainId c)) (new_calls s (snd (getAccountHoldings w addr s))) = []"
    using hw he empty by (rule getAccountHoldings_no_token_calls)
  fix hs h
  assume r: "fst (getAccountHoldings w addr s) = Inr hs" and h: "h \<in> set hs" and ch: "chain h = name c"
  from r getAccountHoldings_fst [OF hw he, of addr s]
  have "hs = concat (map (network_holdings w addr) SUPPORTED_CHAINS)" by simp
  with h obtain c' where c': "c' \<in> set SUPPORTED_CHAINS" "h \<in> set (network_holdings w addr c')"
    by auto
  from network_holdings_chain [OF c'(2)] ch have "name c' = name c" by simp
  from registry_name_inj [OF reg c'(1) this] c'(2) have "h \<in> set (network_holdings w addr c)" by simp
  then have "h \<in> set (native_read w addr c)"
    unfolding nh by (simp split: if_splits)
  then show "symbol h = nc_symbol (nativeCurrency c)" by (rule native_read_symbol)
qed

theorem common_tokens_only_ethereum_bsc_witness:
  "''0x89'' \<noteq> ''0x1'' \<and> ''0x89'' \<noteq> ''0x38'' \<and> getCommonTokensForChain ''0x89'' = [] \<and>
   has_window demo_wallet \<and> has_ethereum demo_wallet \<and> POLYGON \<in> set SUPPORTED_CHAINS \<and>
   chainId POLYGON = ''0x89'' \<and>
   network_holdings demo_wallet alice POLYGON =
     [\<lparr>symbol = ''MATIC'', chain = ''POLYGON'', quantity = ''2.5'', selected = False\<rparr>] \<and>
   length (network_holdings demo_wallet alice POLYGON) \<le> 1 \<and>
   filter (is_token_call ''0x89'') (new_calls world0 (snd (getAccountHoldings demo_wallet alice world0))) = [] \<and>
   fst (getAccountHoldings demo_wallet alice world0) =
     Inr [\<lparr>symbol = ''ETH'', chain = ''ETHEREUM'', quantity = ''1.0'', selected = False\<rparr>,
          \<lparr>symbol = ''USD Coin'', chain = ''ETHEREUM'', quantity = ''0.5'', selected = False\<rparr>,
          \<lparr>symbol = ''MATIC'', chain = ''POLYGON'', quantity = ''2.5'', selected = False\<rparr>] \<and>
   symbol \<lparr>symbol = ''MATIC'', chain = ''POLYGON'', quantity = ''2.5'', selected = False\<rparr>
     = nc_symbol (nativeCurrency POLYGON)"
  using common_tokens_only_ethereum_bsc [where cid = "''0x89''" and w = demo_wallet and c = POLYGON
          and addr = alice and s = world0]
  by (simp add: demo_wallet_fields SUPPORTED_CHAINS_def registry_ids registry_names demo_switch
        demo_native demo_holdings registry_currency)

section \<open>Decimal scaling and the timeout\<close>



text \<open>
  C4. The wait resolves exactly when the wallet is there and a \<open>chainChanged\<close>
  notification reporting the target arrives before the timeout of 3000 milliseconds (3
  seconds); otherwise it fails with the error \<open>Network change timeout\<close>, and so does
  \<open>switchChain\<close> whenever it reaches the wait and no such notification arrives: the
  error has no code, so the \<open>catch\<close> block throws it on unchanged.
\<close>

theorem network_change_timeout:
  "NETWORK_CHANGE_TIMEOUT = 3000 \<and>
   fst (waitForNetworkChange w cid s) =
     (if has_ethereum w \<and> cid \<in> set (map snd (takeWhile (\<lambda>e. fst e < 3000) (chainChanged w cid)))
      then Inr () else Inl (Error ''Network change timeout'')) \<and>
   (has_ethereum w \<longrightarrow> reaches_wait w cid \<longrightarrow>
    cid \<notin> set (map snd (takeWhile (\<lambda>e. fst e < 3000) (chainChanged w cid))) \<longrightarrow>
      fst (switchChain w cid s) = Inl (Error ''Network change timeout'') \<and>
      SetTimeout (next_id s) 3000 \<in> set (new_calls s (snd (switchChain w cid s))))"
proof (intro conjI impI)
  show "NETWORK_CHANGE_TIMEOUT = 3000" by (simp add: NETWORK_CHANGE_TIMEOUT_def)
  show "fst (waitForNetworkChange w cid s) =
     (if has_ethereum w \<and> cid \<in> set (map snd (takeWhile (\<lambda>e. fst e < 3000) (chainChanged w cid)))
      then Inr () else Inl (Error ''Network change timeout''))"
    by (simp add: waitForNetworkChange_fst notified_def)
next
  assume eth: "has_ethereum w" and rw: "reaches_wait w cid"
    and "cid \<notin> set (map snd (takeWhile (\<lambda>e. fst e < 3000) (chainChanged w cid)))"
  then have nn: "\<not> notified w cid" by (simp add: notified_def)
  from eth rw nn show "fst (switchChain w cid s) = Inl (Error ''Network change timeout'')"
    by (rule switchChain_fst_timeout)
  from switchChain_listener_calls [OF eth, of s cid] rw
  have "filter is_timer_call (new_calls s (snd (switchChain w cid s))) =
          [SetTimeout (next_id s) 3000, ClearTimeout (next_id s)]" by simp
  then have "SetTimeout (next_id s) 3000 \<in> set (filter is_timer_call (new_calls s (snd (switchChain w cid s))))"
    by simp
  then show "SetTimeout (next_id s) 3000 \<in> set (new_calls s (snd (switchChain w cid s)))"
    by simp
qed

theorem network_change_timeout_witness:
  "has_ethereum demo_wallet \<and> reaches_wait demo_wallet ''0x38'' \<and>
   chainChanged demo_wallet ''0x38'' = [(120, ''0x1'')] \<and>
   ''0x38'' \<notin> set (map snd (takeWhile (\<lambda>e. fst e < 3000) (chainChanged demo_wallet ''0x38''))) \<and>
   fst (waitForNetworkChange demo_wallet ''0x38'' world0) = Inl (Error ''Network change timeout'') \<and>
   fst (switchChain demo_wallet ''0x38'' world0) = Inl (Error ''Network change timeout'') \<and>
   SetTimeout 0 3000 \<in> set (new_calls world0 (snd (switchChain demo_wallet ''0x38'' world0)))"
  using network_change_timeout [where w = demo_wallet and cid = "''0x38''" and s = world0]
  by (simp add: demo_wallet_fields reaches_wait_def world0_def NETWORK_CHANGE_TIMEOUT_def)

section \<open>Listeners and timers\<close>

lemma getAccountHoldings_frame:
  assumes "has_ethereum w" "fresh_ids s"
  shows "listeners (snd (getAccountHoldings w addr s)) = listeners s \<and>
         timers (snd (getAccountHoldings w addr s)) = timers s \<and>
         fresh_ids (snd (getAccountHoldings w addr s))"
  using assms chains_loop_frame [OF assms, of addr SUPPORTED_CHAINS "[]"]
  by (simp add: getAccountHoldings_def prod.case_eq_if)

lemma refusing_wallet_fields:
  "has_ethereum refusing_wallet"
  "switchEthereumChain refusing_wallet ''0x89'' = Some unrecognized_chain"
  "addEthereumChain refusing_wallet cid = Some user_rejected"
  by (simp_all add: refusing_wallet_def demo_wallet_def)

text \<open>
  C3 as stated fails: a call that leaves through the add-network failure never reaches the
  wait, so it registers no listener at all (not exactly one). Here the wallet answers the
  switch to Polygon with the code 4902 and then rejects the request to add the chain.
\<close>

theorem switchChain_registers_once_counterexample:
  "fst (switchChain refusing_wallet ''0x89'' world0) = Inl user_rejected \<and>
   new_calls world0 (snd (switchChain refusing_wallet ''0x89'' world0)) =
     [Request_switchEthereumChain ''0x89'',
      Request_addEthereumChain ''0x89'' ''POLYGON'' [''https://polygon-rpc.com'']
        \<lparr>nc_symbol = ''MATIC'', nc_decimals = 18\<rparr>] \<and>
   length (filter is_registration (new_calls world0 (snd (switchChain refusing_wallet ''0x89'' world0)))) \<noteq> 1"
proof -
  have c: "find (\<lambda>c. chainId c = ''0x89'') SUPPORTED_CHAINS = Some POLYGON"
    using find_registry(3) by (simp add: registry_ids)
  have code: "err_code unrecognized_chain = Some 4902"
    by (simp add: unrecognized_chain_def)
  note r = switchChain_calls_add_rejected [OF refusing_wallet_fields(1,2) code c refusing_wallet_fields(3), of world0]
  from r show ?thesis
    by (simp add: registry_names POLYGON_def)
qed

text \<open>
  C3, amended. A call to \<open>switchChain\<close> registers the \<open>chainChanged\<close> listener at most
  once: exactly once when the call reaches the wait step, and not at all when the switch
  request is rejected with another code or the add-network request fails. Whenever the
  listener is registered, the same handler is removed and the timeout of 3000 milliseconds
  is cleared before the call returns, on success and on timeout alike. So the listeners
  and the pending timers after the call are those before it, and a whole aggregation
  leaves them as it found them.
\<close>

theorem switchChain_listener_cleanup:
  assumes "has_ethereum w" and "fresh_ids s"
  shows "filter (\<lambda>x. is_registration x \<or> is_deregistration x) (new_calls s (snd (switchChain w cid s))) =
           (if reaches_wait w cid
            then [On_chainChanged (Suc (next_id s)), RemoveListener_chainChanged (Suc (next_id s))]
            else []) \<and>
         filter is_timer_call (new_calls s (snd (switchChain w cid s))) =
           (if reaches_wait w cid
            then [SetTimeout (next_id s) 3000, ClearTimeout (next_id s)]
            else []) \<and>
         listeners (snd (switchChain w cid s)) = listeners s \<and>
         timers (snd (switchChain w cid s)) = timers s \<and>
         fresh_ids (snd (switchChain w cid s)) \<and>
         listeners (snd (getAccountHoldings w addr s)) = listeners s \<and>
         timers (snd (getAccountHoldings w addr s)) = timers s"
  using switchChain_listener_calls [OF assms(1), of s cid] switchChain_frame [OF assms, of cid]
    getAccountHoldings_frame [OF assms, of addr]
  by simp

theorem switchChain_listener_cleanup_witness:
  "has_ethereum demo_wallet \<and> fresh_ids world0 \<and>
   reaches_wait demo_wallet ''0x38'' \<and>
   fst (switchChain demo_wallet ''0x38'' world0) = Inl (Error ''Network change timeout'') \<and>
   filter (\<lambda>x. is_registration x \<or> is_deregistration x)
     (new_calls world0 (snd (switchChain demo_wallet ''0x38'' world0))) =
     [On_chainChanged 1, RemoveListener_chainChanged 1] \<and>
   filter is_timer_call (new_calls world0 (snd (switchChain demo_wallet ''0x38'' world0))) =
     [SetTimeout 0 3000, ClearTimeout 0] \<and>
   listeners (snd (switchChain demo_wallet ''0x38'' world0)) = [] \<and>
   timers (snd (switchChain demo_wallet ''0x38'' world0)) = [] \<and>
   listeners (snd (getAccountHoldings demo_wallet alice world0)) = [] \<and>
   timers (snd (getAccountHoldings demo_wallet alice world0)) = []"
  using switchChain_listener_cleanup [where w = demo_wallet and s = world0 and cid = "''0x38''" and addr = alice]
    switchChain_fst_timeout [where w = demo_wallet and s = world0 and cid = "''0x38''"]
  by (simp add: demo_wallet_fields reaches_wait_def notified_def fresh_ids_def world0_def)

section \<open>Adding an unrecognized chain\<close>

lemma registry_rpc:
  "rpc ETH_MAINNET = ''https://mainnet.infura.io/v3/your-project-id''"
  "rpc BSC = ''https://bsc-dataseed.binance.org''"
  "rpc POLYGON = ''https://polygon-rpc.com''"
  "rpc ARBITRUM = ''https://arb1.arbitrum.io/rpc''"
  by (simp_all add: ETH_MAINNET_def BSC_def POLYGON_def ARBITRUM_def)

lemma network_holdings_in_result:
  assumes "has_window w" "has_ethereum w" "c \<in> set SUPPORTED_CHAINS"
  shows "\<exists>hs. fst (getAccountHoldings w addr s) = Inr hs \<and> set (network_holdings w addr c) \<subseteq> set hs"
  using assms getAccountHoldings_fst [OF assms(1,2), of addr s] by auto

text \<open>
  C5. When the wallet answers the switch request with the code 4902 for a chain of the
  registry, \<open>switchChain\<close> requests \<open>wallet_addEthereumChain\<close> with the chain's
  identifier, display name, RPC endpoint and native currency (symbol and decimals), then
  waits again; when the add request is accepted and the notification arrives, it returns a
  provider with a fresh identity on the target network, and the holdings read on that
  network are part of the result of the aggregation.
\<close>

theorem switchChain_adds_unrecognized_chain:
  assumes "has_ethereum w" and "c \<in> set SUPPORTED_CHAINS"
    and "switchEthereumChain w (chainId c) = Some e" and "err_code e = Some 4902"
    and "addEthereumChain w (chainId c) = None" and "notified w (chainId c)"
  shows "new_calls s (snd (switchChain w (chainId c) s)) =
           [Request_switchEthereumChain (chainId c),
            Request_addEthereumChain (chainId c) (name c) [rpc c] (nativeCurrency c),
            SetTimeout (next_id s) 3000, On_chainChanged (Suc (next_id s)),
            ClearTimeout (next_id s), RemoveListener_chainChanged (Suc (next_id s)),
            New_Web3Provider (Suc (Suc (next_id s)))] \<and>
         fst (switchChain w (chainId c) s) = Inr \<lparr>handle = Suc (Suc (next_id s)), network = chainId c\<rparr> \<and>
         network_holdings w addr c = native_read w addr c @ token_reads w addr c \<and>
         (has_window w \<longrightarrow>
            (\<exists>hs. fst (getAccountHoldings w addr s) = Inr hs \<and>
                  set (native_read w addr c @ token_reads w addr c) \<subseteq> set hs))"
proof -
  from assms(2) have reg: "chainId c \<in> set (map chainId SUPPORTED_CHAINS)" by simp
  with assms have ok: "switch_succeeds w (chainId c)"
    by (simp add: switch_succeeds_def reaches_wait_def)
  then have nh: "network_holdings w addr c = native_read w addr c @ token_reads w addr c"
    by (simp add: network_holdings_def)
  from switchChain_calls_added [OF assms(1,3,4) find_registry_chain [OF assms(2)] assms(5), of s] assms(6)
  have "new_calls s (snd (switchChain w (chainId c) s)) =
           [Request_switchEthereumChain (chainId c),
            Request_addEthereumChain (chainId c) (name c) [rpc c] (nativeCurrency c),
            SetTimeout (next_id s) 3000, On_chainChanged (Suc (next_id s)),
            ClearTimeout (next_id s), RemoveListener_chainChanged (Suc (next_id s)),
            New_Web3Provider (Suc (Suc (next_id s)))]" by simp
  moreover note switchChain_fst_succeeds [OF ok, of s] nh
  moreover have "\<exists>hs. fst (getAccountHoldings w addr s) = Inr hs \<and>
                   set (native_read w addr c @ token_reads w addr c) \<subseteq> set hs" if "has_window w"
    using network_holdings_in_result [OF that assms(1,2), of addr s] by (simp only: nh)
  ultimately show ?thesis by blast
qed

theorem switchChain_adds_unrecognized_chain_witness:
  "has_ethereum demo_wallet \<and> POLYGON \<in> set SUPPORTED_CHAINS \<and>
   switchEthereumChain demo_wallet (chainId POLYGON) = Some unrecognized_chain \<and>
   err_code unrecognized_chain = Some 4902 \<and>
   addEthereumChain demo_wallet (chainId POLYGON) = None \<and> notified demo_wallet (chainId POLYGON) \<and>
   new_calls world0 (snd (switchChain demo_wallet (chainId POLYGON) world0)) =
     [Request_switchEthereumChain ''0x89'',
      Request_addEthereumChain ''0x89'' ''POLYGON'' [''https://polygon-rpc.com'']
        \<lparr>nc_symbol = ''MATIC'', nc_decimals = 18\<rparr>,
      SetTimeout 0 3000, On_chainChanged 1, ClearTimeout 0, RemoveListener_chainChanged 1,
      New_Web3Provider 2] \<and>
   fst (switchChain demo_wallet (chainId POLYGON) world0) = Inr \<lparr>handle = 2, network = ''0x89''\<rparr> \<and>
   has_window demo_wallet \<and>
   fst (getAccountHoldings demo_wallet alice world0) =
     Inr [\<lparr>symbol = ''ETH'', chain = ''ETHEREUM'', quantity = ''1.0'', selected = False\<rparr>,
          \<lparr>symbol = ''USD Coin'', chain = ''ETHEREUM'', quantity = ''0.5'', selected = False\<rparr>,
          \<lparr>symbol = ''MATIC'', chain = ''POLYGON'', quantity = ''2.5'', selected = False\<rparr>] \<and>
   native_read demo_wallet alice POLYGON @ token_reads demo_wallet alice POLYGON =
     [\<lparr>symbol = ''MATIC'', chain = ''POLYGON'', quantity = ''2.5'', selected = False\<rparr>]"
  using switchChain_adds_unrecognized_chain [where w = demo_wallet and c = POLYGON
          and e = unrecognized_chain and s = world0 and addr = alice]
  by (simp add: demo_wallet_fields SUPPORTED_CHAINS_def registry_ids registry_names registry_currency
        unrecognized_chain_def notified_def world0_def demo_holdings demo_native demo_tokens registry_rpc)

section \<open>Token reads\<close>

lemma tokenBalances_all_fst_same:
  "fst (tokenBalances_all w p addr nm toks s) =
   map (\<lambda>t. fst (getTokenBalance w p (token_address t) addr nm s)) toks"
proof -
  have "map (\<lambda>t. fst (getTokenBalance w (provider_on (network p)) (token_address t) addr nm world0)) toks =
        map (\<lambda>t. fst (getTokenBalance w p (token_address t) addr nm s)) toks"
    by (intro map_cong refl) (rule getTokenBalance_fst [symmetric])
  then show ?thesis by (simp only: tokenBalances_all_fst)
qed

section \<open>Skipped networks and the order of the result\<close>

lemma filter_network_read_calls:
  "filter (\<lambda>x. call_network x = Some n) (read_calls m addr) = (if m = n then read_calls m addr else [])"
  by (simp add: read_calls_def token_calls_def filter_concat comp_def)

lemma filter_network_is_read:
  "filter (\<lambda>x. call_network x = Some n) X = filter (\<lambda>x. call_network x = Some n) (filter is_read X)"
  by (induction X) (auto simp: is_read_def)

lemma getAccountHoldings_no_reads_on:
  assumes "has_window w" "has_ethereum w" "\<not> switch_succeeds w n"
  shows "filter (\<lambda>x. call_network x = Some n) (new_calls s (snd (getAccountHoldings w addr s))) = []"
proof -
  from getAccountHoldings_reads [OF assms(1,2), of addr s]
  obtain X where X: "calls (snd (getAccountHoldings w addr s)) = calls s @ X"
    "filter is_read X =
       concat (map (\<lambda>c. if switch_succeeds w (chainId c) then read_calls (chainId c) addr else [])
                SUPPORTED_CHAINS)" by blast
  have "filter (\<lambda>x. call_network x = Some n) X = filter (\<lambda>x. call_network x = Some n) (filter is_read X)"
    by (rule filter_network_is_read)
  also have "\<dots> = []"
    unfolding X(2) using assms(3)
    by (auto simp: filter_concat comp_def filter_network_read_calls if_distrib [of "filter _"])
  finally show ?thesis by (simp add: new_calls_append [OF X(1)])
qed

lemma getAccountHoldings_logs:
  assumes "has_window w" "has_ethereum w" "c \<in> set SUPPORTED_CHAINS" "\<not> switch_succeeds w (chainId c)"
  shows "\<exists>e. fst (switchChain w (chainId c) world0) = Inl e \<and>
             (holdings_error_message c, e) \<in> set (console (snd (getAccountHoldings w addr s)))"
  using assms(1,2) chains_loop_logs [OF assms(3,4), of addr "[]" s]
  by (simp add: getAccountHoldings_def prod.case_eq_if)

text \<open>
  C1. When the switch to a network of the registry fails, for whatever reason (a timeout
  of the wait included), the aggregation for an address still returns a list: the holdings
  read on every other network that could be switched to, in order. The failure is written
  to the console with the error of the switch, nothing is read on the failed network and
  nothing in the result belongs to it. Whether a switch fails, and with which error, does
  not depend on the world it starts in (lemma \<open>switchChain_fst_indep\<close>), so the
  failure is assumed for some world \<open>s0\<close>.
\<close>

theorem getAccountHoldings_skips_failed_network:
  assumes "has_window w" and "has_ethereum w" and "c \<in> set SUPPORTED_CHAINS"
    and "fst (switchChain w (chainId c) s0) = Inl e"
  shows "fst (getAccountHoldings w addr s) =
           Inr (concat (map (network_holdings w addr) (remove1 c SUPPORTED_CHAINS))) \<and>
         (holdings_error_message c, e) \<in> set (console (snd (getAccountHoldings w addr s))) \<and>
         filter (\<lambda>x. call_network x = Some (chainId c)) (new_calls s (snd (getAccountHoldings w addr s))) = [] \<and>
         (\<forall>h \<in> set (concat (map (network_holdings w addr) (remove1 c SUPPORTED_CHAINS))). chain h \<noteq> name c)"
proof -
  have fails: "\<not> switch_succeeds w (chainId c)"
  proof
    assume "switch_succeeds w (chainId c)"
    from switchChain_fst_succeeds [OF this, of s0] assms(4) show False by simp
  qed
  then have empty: "network_holdings w addr c = []" by (simp add: network_holdings_def)
  have "fst (getAccountHoldings w addr s) = Inr (concat (map (network_holdings w addr) SUPPORTED_CHAINS))"
    using assms(1,2) by (rule getAccountHoldings_fst)
  then have res: "fst (getAccountHoldings w addr s) =
           Inr (concat (map (network_holdings w addr) (remove1 c SUPPORTED_CHAINS)))"
    using concat_map_remove1 [of "network_holdings w addr" c SUPPORTED_CHAINS, OF empty] by simp
  from switchChain_fst_indep [OF fails, of s0] assms(4)
  have e: "fst (switchChain w (chainId c) world0) = Inl e" by simp
  with getAccountHoldings_logs [OF assms(1,2,3) fails, of addr s]
  have log: "(holdings_error_message c, e) \<in> set (console (snd (getAccountHoldings w addr s)))" by auto
  have reads: "filter (\<lambda>x. call_network x = Some (chainId c))
                 (new_calls s (snd (getAccountHoldings w addr s))) = []"
    using assms(1,2) fails by (rule getAccountHoldings_no_reads_on)
  have "chain h \<noteq> name c"
    if "h \<in> set (concat (map (network_holdings w addr) (remove1 c SUPPORTED_CHAINS)))" for h
  proof
    assume ch: "chain h = name c"
    from that obtain c' where c': "c' \<in> set (remove1 c SUPPORTED_CHAINS)" "h \<in> set (network_holdings w addr c')"
      by auto
    from c'(1) have reg: "c' \<in> set SUPPORTED_CHAINS" by (metis notin_set_remove1)
    from network_holdings_chain [OF c'(2)] ch have "name c' = name c" by simp
    from registry_name_inj [OF assms(3) reg this] c'(2) empty show False by simp
  qed
  with res log reads show ?thesis by blast
qed

theorem getAccountHoldings_skips_failed_network_witness:
  "has_window demo_wallet \<and> has_ethereum demo_wallet \<and> BSC \<in> set SUPPORTED_CHAINS \<and>
   fst (switchChain demo_wallet (chainId BSC) world0) = Inl (Error ''Network change timeout'') \<and>
   fst (getAccountHoldings demo_wallet alice world0) =
     Inr [\<lparr>symbol = ''ETH'', chain = ''ETHEREUM'', quantity = ''1.0'', selected = False\<rparr>,
          \<lparr>symbol = ''USD Coin'', chain = ''ETHEREUM'', quantity = ''0.5'', selected = False\<rparr>,
          \<lparr>symbol = ''MATIC'', chain = ''POLYGON'', quantity = ''2.5'', selected = False\<rparr>] \<and>
   (holdings_error_message BSC, Error ''Network change timeout'')
     \<in> set (console (snd (getAccountHoldings demo_wallet alice world0))) \<and>
   filter (\<lambda>x. call_network x = Some (chainId BSC))
     (new_calls world0 (snd (getAccountHoldings demo_wallet alice world0))) = []"
proof -
  have sw: "fst (switchChain demo_wallet (chainId BSC) world0) = Inl (Error ''Network change timeout'')"
    by (rule switchChain_fst_timeout)
       (simp_all add: demo_wallet_fields reaches_wait_def notified_def registry_ids)
  have reg: "BSC \<in> set SUPPORTED_CHAINS" by (simp add: SUPPORTED_CHAINS_def)
  from getAccountHoldings_skips_failed_network
         [OF demo_wallet_fields(1) demo_wallet_fields(2) reg sw, of alice world0]
  show ?thesis
    by (simp add: demo_wallet_fields reg sw demo_holdings)
qed

lemma map_const_replicate: "(\<And>x. x \<in> set xs \<Longrightarrow> f x = k) \<Longrightarrow> map f xs = replicate (length xs) k"
  by (induction xs) auto

lemma registry_positions:
  "registry_position ''ETHEREUM'' = 0" "registry_position ''BNB CHAIN'' = 1"
  "registry_position ''POLYGON'' = 2" "registry_position ''ARBITRUM'' = 3"
  by (simp_all add: registry_position_def SUPPORTED_CHAINS_def registry_names)

lemma network_holdings_positions:
  "map (\<lambda>h. registry_position (chain h)) (network_holdings w addr c) =
   replicate (length (network_holdings w addr c)) (registry_position (name c))"
  by (rule map_const_replicate) (simp add: network_holdings_chain)

lemma filter_chain_network_holdings:
  "filter (\<lambda>h. chain h = nm) (network_holdings w addr c) =
   (if name c = nm then network_holdings w addr c else [])"
proof (cases "name c = nm")
  case True
  then have "\<forall>h \<in> set (network_holdings w addr c). chain h = nm"
    by (auto dest: network_holdings_chain)
  with True show ?thesis by simp
next
  case False
  then have "\<forall>h \<in> set (network_holdings w addr c). chain h \<noteq> nm"
    by (auto dest: network_holdings_chain)
  with False show ?thesis by simp
qed

text \<open>
  C6. The list returned by the aggregation is the holdings of Ethereum, then those of BNB
  Chain, of Polygon and of Arbitrum, the order of the registry: the positions of the
  networks of the holdings never go down along the list. The holdings of one network in the
  list are its native holding, if there is one, followed by the holdings of its tokens in
  the order of the list that \<open>getCommonTokensForChain\<close> gives.
\<close>

theorem getAccountHoldings_order:
  assumes "has_window w" and "has_ethereum w"
  shows "\<exists>hs. fst (getAccountHoldings w addr s) = Inr hs \<and>
           hs = network_holdings w addr ETH_MAINNET @ network_holdings w addr BSC @
                network_holdings w addr POLYGON @ network_holdings w addr ARBITRUM \<and>
           sorted (map (\<lambda>h. registry_position (chain h)) hs) \<and>
           (\<forall>c \<in> set SUPPORTED_CHAINS.
              filter (\<lambda>h. chain h = name c) hs = network_holdings w addr c \<and>
              (switch_succeeds w (chainId c) \<longrightarrow>
                 network_holdings w addr c =
                   native_read w addr c @
                   map the (filter (\<lambda>b. b \<noteq> None)
                              (map (token_read w addr c) (getCommonTokensForChain (chainId c)))) \<and>
                 length (native_read w addr c) \<le> 1))"
proof -
  let ?hs = "network_holdings w addr ETH_MAINNET @ network_holdings w addr BSC @
             network_holdings w addr POLYGON @ network_holdings w addr ARBITRUM"
  have res: "fst (getAccountHoldings w addr s) = Inr ?hs"
    using getAccountHoldings_fst [OF assms, of addr s] by (simp add: SUPPORTED_CHAINS_def)
  have srt: "sorted (map (\<lambda>h. registry_position (chain h)) ?hs)"
    by (auto simp: network_holdings_positions registry_names registry_positions sorted_append)
  have blocks: "filter (\<lambda>h. chain h = name c) ?hs = network_holdings w addr c"
    if "c \<in> set SUPPORTED_CHAINS" for c
    using registry_cases [OF that]
    by (elim disjE) (simp_all add: filter_chain_network_holdings registry_names)
  have inner: "network_holdings w addr c =
                 native_read w addr c @
                 map the (filter (\<lambda>b. b \<noteq> None)
                            (map (token_read w addr c) (getCommonTokensForChain (chainId c))))"
    if "switch_succeeds w (chainId c)" for c
    using that by (simp add: network_holdings_def token_reads_def)
  from res srt blocks inner length_native_read show ?thesis by blast
qed

theorem getAccountHoldings_order_witness:
  "has_window demo_wallet \<and> has_ethereum demo_wallet \<and>
   fst (getAccountHoldings demo_wallet alice world0) =
     Inr [\<lparr>symbol = ''ETH'', chain = ''ETHEREUM'', quantity = ''1.0'', selected = False\<rparr>,
          \<lparr>symbol = ''USD Coin'', chain = ''ETHEREUM'', quantity = ''0.5'', selected = False\<rparr>,
          \<lparr>symbol = ''MATIC'', chain = ''POLYGON'', quantity = ''2.5'', selected = False\<rparr>] \<and>
   network_holdings demo_wallet alice ETH_MAINNET @ network_holdings demo_wallet alice BSC @
   network_holdings demo_wallet alice POLYGON @ network_holdings demo_wallet alice ARBITRUM =
     [\<lparr>symbol = ''ETH'', chain = ''ETHEREUM'', quantity = ''1.0'', selected = False\<rparr>,
      \<lparr>symbol = ''USD Coin'', chain = ''ETHEREUM'', quantity = ''0.5'', selected = False\<rparr>,
      \<lparr>symbol = ''MATIC'', chain = ''POLYGON'', quantity = ''2.5'', selected = False\<rparr>] \<and>
   map (\<lambda>h. registry_position (chain h))
     [\<lparr>symbol = ''ETH'', chain = ''ETHEREUM'', quantity = ''1.0'', selected = False\<rparr>,
      \<lparr>symbol = ''USD Coin'', chain = ''ETHEREUM'', quantity = ''0.5'', selected = False\<rparr>,
      \<lparr>symbol = ''MATIC'', chain = ''POLYGON'', quantity = ''2.5'', selected = False\<rparr>] = [0, 0, 2] \<and>
   ETH_MAINNET \<in> set SUPPORTED_CHAINS \<and> switch_succeeds demo_wallet (chainId ETH_MAINNET) \<and>
   native_read demo_wallet alice ETH_MAINNET =
     [\<lparr>symbol = ''ETH'', chain = ''ETHEREUM'', quantity = ''1.0'', selected = False\<rparr>] \<and>
   map (token_read demo_wallet alice ETH_MAINNET) (getCommonTokensForChain (chainId ETH_MAINNET)) =
     [Some \<lparr>symbol = ''USD Coin'', chain = ''ETHEREUM'', quantity = ''0.5'', selected = False\<rparr>,
      None, None]"
  using getAccountHoldings_order [where w = demo_wallet and addr = alice and s = world0]
  by (simp add: demo_wallet_fields demo_holdings network_holdings_def registry_ids demo_switch
        demo_native demo_tokens registry_positions SUPPORTED_CHAINS_def
        token_read_def getTokenBalance_def promise_all3_def provider_on_def
        getCommonTokensForChain_def registry_names formatUnits_examples)
     (simp add: demo_wallet_def alice_def formatUnits_examples)

section \<open>Zero balances\<close>

lemma getAccountHoldings_nonzero:
  assumes "fst (getAccountHoldings w addr s) = Inr hs" "h \<in> set hs"
  shows "\<not> quantity_is_zero (quantity h)"
proof -
  from assms(1) have hw: "has_window w" and he: "has_ethereum w"
    by (auto simp: getAccountHoldings_def split: if_splits)
  from getAccountHoldings_fst [OF hw he, of addr s] assms
  obtain c where "h \<in> set (network_holdings w addr c)" by auto
  then show ?thesis by (rule network_holdings_nonzero)
qed

lemma connectMetaMask_nonzero:
  assumes "fst (connectMetaMask w s) = Inr accts" "a \<in> set accts" "h \<in> set (holdings a)"
  shows "\<not> quantity_is_zero (quantity h)"
proof -
  from assms(1) obtain as where
    "accts = map (\<lambda>a. \<lparr>address = a, holdings = concat (map (network_holdings w a) SUPPORTED_CHAINS)\<rparr>) as"
    by (auto simp: connectMetaMask_fst split: if_splits sum.splits)
  with assms(2,3) obtain a' c where "h \<in> set (network_holdings w a' c)" by auto
  then show ?thesis by (rule network_holdings_nonzero)
qed

text \<open>
  C2. No holdings list that the aggregation produces, and so no account that a connection
  returns, holds an entry whose quantity is zero: the native read and the token read both
  return none when the raw balance is zero, and the quantity string of a balance that is
  not zero has a digit other than 0.
\<close>

theorem holdings_never_zero:
  "(\<forall>hs. fst (getAccountHoldings w addr s) = Inr hs \<longrightarrow>
      (\<forall>h \<in> set hs. \<not> quantity_is_zero (quantity h))) \<and>
   (\<forall>accts. fst (connectMetaMask w s) = Inr accts \<longrightarrow>
      (\<forall>a \<in> set accts. \<forall>h \<in> set (holdings a). \<not> quantity_is_zero (quantity h))) \<and>
   (getBalance w (network p) addr = Inr 0 \<longrightarrow> fst (getNativeTokenBalance w p addr c s) = None) \<and>
   (balanceOf w (network p) t addr = Inr 0 \<longrightarrow> fst (getTokenBalance w p t addr nm s) = None) \<and>
   (\<forall>h. fst (getNativeTokenBalance w p addr c s) = Some h \<longrightarrow> \<not> quantity_is_zero (quantity h)) \<and>
   (\<forall>h. fst (getTokenBalance w p t addr nm s) = Some h \<longrightarrow> \<not> quantity_is_zero (quantity h))"
proof (intro conjI allI impI ballI)
  fix hs h
  assume "fst (getAccountHoldings w addr s) = Inr hs" "h \<in> set hs"
  then show "\<not> quantity_is_zero (quantity h)" by (rule getAccountHoldings_nonzero)
next
  fix accts a h
  assume "fst (connectMetaMask w s) = Inr accts" "a \<in> set accts" "h \<in> set (holdings a)"
  then show "\<not> quantity_is_zero (quantity h)" by (rule connectMetaMask_nonzero)
next
  assume "getBalance w (network p) addr = Inr 0"
  then show "fst (getNativeTokenBalance w p addr c s) = None"
    by (simp add: getNativeTokenBalance_def)
next
  assume "balanceOf w (network p) t addr = Inr 0"
  then show "fst (getTokenBalance w p t addr nm s) = None"
    by (simp add: getTokenBalance_def Let_def promise_all3_def split: sum.splits)
next
  fix h
  assume "fst (getNativeTokenBalance w p addr c s) = Some h"
  then show "\<not> quantity_is_zero (quantity h)" by (rule getNativeTokenBalance_nonzero)
next
  fix h
  assume "fst (getTokenBalance w p t addr nm s) = Some h"
  then show "\<not> quantity_is_zero (quantity h)" by (rule getTokenBalance_nonzero)
qed

lemma demo_accounts:
  "fst (connectMetaMask demo_wallet s) =
     Inr [\<lparr>address = alice, holdings =
            [\<lparr>symbol = ''ETH'', chain = ''ETHEREUM'', quantity = ''1.0'', selected = False\<rparr>,
             \<lparr>symbol = ''USD Coin'', chain = ''ETHEREUM'', quantity = ''0.5'', selected = False\<rparr>,
             \<lparr>symbol = ''MATIC'', chain = ''POLYGON'', quantity = ''2.5'', selected = False\<rparr>]\<rparr>,
          \<lparr>address = bob, holdings = []\<rparr>]"
proof -
  have a: "concat (map (network_holdings demo_wallet alice) SUPPORTED_CHAINS) =
            [\<lparr>symbol = ''ETH'', chain = ''ETHEREUM'', quantity = ''1.0'', selected = False\<rparr>,
             \<lparr>symbol = ''USD Coin'', chain = ''ETHEREUM'', quantity = ''0.5'', selected = False\<rparr>,
             \<lparr>symbol = ''MATIC'', chain = ''POLYGON'', quantity = ''2.5'', selected = False\<rparr>]"
    using getAccountHoldings_fst [OF demo_wallet_fields(1,2), of alice world0]
    by (simp add: demo_holdings)
  have nb: "native_read demo_wallet bob c = []" for c
    by (simp add: native_read_def getNativeTokenBalance_def demo_wallet_def alice_def bob_def)
  have tb: "token_read demo_wallet bob c t = None" for c t
    by (simp add: token_read_def getTokenBalance_def promise_all3_def demo_wallet_def alice_def bob_def
          split: sum.splits)
  have b: "concat (map (network_holdings demo_wallet bob) SUPPORTED_CHAINS) = []"
    by (auto simp: network_holdings_def nb token_reads_def tb)
  show ?thesis
    by (simp add: connectMetaMask_fst demo_wallet_fields a b)
qed

theorem holdings_never_zero_witness:
  "fst (getAccountHoldings demo_wallet alice world0) =
     Inr [\<lparr>symbol = ''ETH'', chain = ''ETHEREUM'', quantity = ''1.0'', selected = False\<rparr>,
          \<lparr>symbol = ''USD Coin'', chain = ''ETHEREUM'', quantity = ''0.5'', selected = False\<rparr>,
          \<lparr>symbol = ''MATIC'', chain = ''POLYGON'', quantity = ''2.5'', selected = False\<rparr>] \<and>
   \<not> quantity_is_zero ''1.0'' \<and> \<not> quantity_is_zero ''0.5'' \<and> \<not> quantity_is_zero ''2.5'' \<and>
   fst (connectMetaMask demo_wallet world0) =
     Inr [\<lparr>address = alice, holdings =
            [\<lparr>symbol = ''ETH'', chain = ''ETHEREUM'', quantity = ''1.0'', selected = False\<rparr>,
             \<lparr>symbol = ''USD Coin'', chain = ''ETHEREUM'', quantity = ''0.5'', selected = False\<rparr>,
             \<lparr>symbol = ''MATIC'', chain = ''POLYGON'', quantity = ''2.5'', selected = False\<rparr>]\<rparr>,
          \<lparr>address = bob, holdings = []\<rparr>] \<and>
   getBalance demo_wallet (network (provider_on ''0xa4b1'')) alice = Inr 0 \<and>
   fst (getNativeTokenBalance demo_wallet (provider_on ''0xa4b1'') alice ARBITRUM world0) = None \<and>
   balanceOf demo_wallet (network (provider_on ''0x1'')) ''0x2260FAC5E5542a773Aa44fBCfeDf7C193bc2C599'' alice
     = Inr 0 \<and>
   fst (getTokenBalance demo_wallet (provider_on ''0x1'') ''0x2260FAC5E5542a773Aa44fBCfeDf7C193bc2C599''
          alice ''ETHEREUM'' world0) = None"
  using holdings_never_zero [where w = demo_wallet and addr = alice and s = world0
          and p = "provider_on ''0xa4b1''" and c = ARBITRUM]
    holdings_never_zero [where w = demo_wallet and addr = alice and s = world0
          and p = "provider_on ''0x1''" and t = "''0x2260FAC5E5542a773Aa44fBCfeDf7C193bc2C599''"
          and nm = "''ETHEREUM''"]
  by (simp add: demo_holdings demo_accounts)
     (simp add: demo_wallet_def provider_on_def alice_def quantity_is_zero_def)

section \<open>Connecting\<close>

lemma silent_wallet_fields:
  "has_window silent_wallet" "has_ethereum silent_wallet"
  "requestAccounts silent_wallet = Inl silent_error"
  by (simp_all add: silent_wallet_def demo_wallet_def)

text \<open>
  C9 as stated fails: the message of the error that \<open>connectMetaMask\<close> throws is not
  always that of the error it caught. When the wallet rejects the authorisation request
  with an error that has no message (and a code other than 4001), the message is the fixed
  text \<open>Failed to connect to MetaMask\<close>.
\<close>

theorem connectMetaMask_message_counterexample:
  "requestAccounts silent_wallet = Inl silent_error \<and>
   silent_error \<noteq> Nullish \<and>
   err_code silent_error \<noteq> Some 4001 \<and>
   fst (connectMetaMask silent_wallet world0) = Inl (MetaMaskError ''Failed to connect to MetaMask'') \<and>
   err_message (MetaMaskError ''Failed to connect to MetaMask'') \<noteq> err_message silent_error"
  by (simp add: connectMetaMask_fst silent_wallet_fields connectMetaMask_catch_def silent_error_def
        MetaMaskError_def)

text \<open>
  What the source does when the authorisation request is rejected with \<open>null\<close> or
  \<open>undefined\<close>: the \<open>catch\<close> block fails on \<open>error.code\<close>, and its
  \<open>TypeError\<close> is what the caller gets.
\<close>

lemma connectMetaMask_nullish:
  assumes "has_window w" "has_ethereum w" "requestAccounts w = Inl Nullish"
  shows "fst (connectMetaMask w s) = Inl TypeError_reading_code"
  using assms by (simp add: connectMetaMask_fst connectMetaMask_catch_def)

text \<open>
  C9, amended. Whenever the value that the \<open>catch\<close> block of \<open>connectMetaMask\<close>
  catches is not \<open>null\<close> or \<open>undefined\<close>, the failure is a \<open>MetaMaskError\<close>. An
  error of the authorisation request, and the empty-account-list error thrown inside the
  \<open>try\<close> block, is caught and thrown again as a new \<open>MetaMaskError\<close>: with the
  user-rejection message when the caught error has the code 4001, otherwise with the
  message of the caught error when it has one, and with the text
  \<open>Failed to connect to MetaMask\<close> when it has none. When the call returns, it returns
  one account for every authorised address, in the wallet's order: never a partial list.
\<close>

theorem connectMetaMask_failures:
  "(requestAccounts w \<noteq> Inl Nullish \<longrightarrow>
      ((\<exists>m. fst (connectMetaMask w s) = Inl (MetaMaskError m)) \<or>
       (\<exists>accts. fst (connectMetaMask w s) = Inr accts \<and> accts \<noteq> [] \<and>
                requestAccounts w = Inr (map address accts)))) \<and>
   (has_window w \<longrightarrow> has_ethereum w \<longrightarrow> requestAccounts w = Inl e \<longrightarrow> e \<noteq> Nullish \<longrightarrow>
      fst (connectMetaMask w s) =
        Inl (MetaMaskError (if err_code e = Some 4001 then ''User rejected the connection request''
                            else if err_message e \<noteq> [] then err_message e
                            else ''Failed to connect to MetaMask''))) \<and>
   (has_window w \<longrightarrow> has_ethereum w \<longrightarrow> requestAccounts w = Inr [] \<longrightarrow>
      fst (connectMetaMask w s) = Inl (MetaMaskError ''No accounts found'')) \<and>
   (has_window w \<longrightarrow> has_ethereum w \<longrightarrow> requestAccounts w = Inr as \<longrightarrow> as \<noteq> [] \<longrightarrow>
      (\<exists>accts. fst (connectMetaMask w s) = Inr accts \<and> map address accts = as \<and>
               (\<forall>a \<in> set accts. fst (getAccountHoldings w (address a) s) = Inr (holdings a))))"
proof (intro conjI impI)
  assume "requestAccounts w \<noteq> Inl Nullish"
  then show "(\<exists>m. fst (connectMetaMask w s) = Inl (MetaMaskError m)) \<or>
    (\<exists>accts. fst (connectMetaMask w s) = Inr accts \<and> accts \<noteq> [] \<and>
             requestAccounts w = Inr (map address accts))"
    by (auto simp: connectMetaMask_fst connectMetaMask_catch_def comp_def split: sum.splits)
next
  assume "has_window w" "has_ethereum w" "requestAccounts w = Inl e" "e \<noteq> Nullish"
  then show "fst (connectMetaMask w s) =
        Inl (MetaMaskError (if err_code e = Some 4001 then ''User rejected the connection request''
                            else if err_message e \<noteq> [] then err_message e
                            else ''Failed to connect to MetaMask''))"
    by (simp add: connectMetaMask_fst connectMetaMask_catch_def)
next
  assume "has_window w" "has_ethereum w" "requestAccounts w = Inr []"
  then show "fst (connectMetaMask w s) = Inl (MetaMaskError ''No accounts found'')"
    by (simp add: connectMetaMask_fst)
next
  assume hw: "has_window w" and he: "has_ethereum w" and r: "requestAccounts w = Inr as" "as \<noteq> []"
  let ?accts = "map (\<lambda>a. \<lparr>address = a, holdings = concat (map (network_holdings w a) SUPPORTED_CHAINS)\<rparr>) as"
  from hw he r have "fst (connectMetaMask w s) = Inr ?accts"
    by (simp add: connectMetaMask_fst)
  moreover have "map address ?accts = as" by (simp add: comp_def)
  moreover have "\<forall>a \<in> set ?accts. fst (getAccountHoldings w (address a) s) = Inr (holdings a)"
    by (auto simp: getAccountHoldings_fst [OF hw he])
  ultimately show "\<exists>accts. fst (connectMetaMask w s) = Inr accts \<and> map address accts = as \<and>
               (\<forall>a \<in> set accts. fst (getAccountHoldings w (address a) s) = Inr (holdings a))"
    by blast
qed

theorem connectMetaMask_failures_witness:
  "has_window (demo_wallet\<lparr>requestAccounts := Inl user_rejected\<rparr>) \<and>
   has_ethereum (demo_wallet\<lparr>requestAccounts := Inl user_rejected\<rparr>) \<and>
   has_window (demo_wallet\<lparr>requestAccounts := Inr []\<rparr>) \<and>
   has_ethereum (demo_wallet\<lparr>requestAccounts := Inr []\<rparr>) \<and>
   has_window demo_wallet \<and> has_ethereum demo_wallet \<and>
   user_rejected \<noteq> Nullish \<and> err_code user_rejected = Some 4001 \<and>
   requestAccounts (demo_wallet\<lparr>requestAccounts := Inl user_rejected\<rparr>) = Inl user_rejected \<and>
   requestAccounts (demo_wallet\<lparr>requestAccounts := Inl user_rejected\<rparr>) \<noteq> Inl Nullish \<and>
   fst (connectMetaMask (demo_wallet\<lparr>requestAccounts := Inl user_rejected\<rparr>) world0) =
     Inl (MetaMaskError ''User rejected the connection request'') \<and>
   requestAccounts (demo_wallet\<lparr>requestAccounts := Inr []\<rparr>) = Inr [] \<and>
   fst (connectMetaMask (demo_wallet\<lparr>requestAccounts := Inr []\<rparr>) world0) =
     Inl (MetaMaskError ''No accounts found'') \<and>
   requestAccounts demo_wallet = Inr [alice, bob] \<and> [alice, bob] \<noteq> [] \<and>
   fst (connectMetaMask demo_wallet world0) =
     Inr [\<lparr>address = alice, holdings =
            [\<lparr>symbol = ''ETH'', chain = ''ETHEREUM'', quantity = ''1.0'', selected = False\<rparr>,
             \<lparr>symbol = ''USD Coin'', chain = ''ETHEREUM'', quantity = ''0.5'', selected = False\<rparr>,
             \<lparr>symbol = ''MATIC'', chain = ''POLYGON'', quantity = ''2.5'', selected = False\<rparr>]\<rparr>,
          \<lparr>address = bob, holdings = []\<rparr>]"
  using connectMetaMask_failures [where w = "demo_wallet\<lparr>requestAccounts := Inl user_rejected\<rparr>"
          and s = world0 and e = user_rejected]
    connectMetaMask_failures [where w = "demo_wallet\<lparr>requestAccounts := Inr []\<rparr>" and s = world0]
    connectMetaMask_failures [where w = demo_wallet and s = world0 and as = "[alice, bob]"]
  by (simp add: demo_accounts demo_wallet_fields user_rejected_def)

section \<open>Token reads within the aggregation\<close>

lemma read_calls_unfold:
  "read_calls cid addr =
     Call_getBalance cid addr
     # concat (map (\<lambda>token. [Call_balanceOf cid (token_address token) addr,
                                Call_symbol cid (token_address token),
                                Call_decimals cid (token_address token)])
                (getCommonTokensForChain cid))"
  by (simp add: read_calls_def token_calls_def)

lemma getAccountHoldings_reads_on:
  assumes "has_window w" "has_ethereum w" "c \<in> set SUPPORTED_CHAINS" "switch_succeeds w (chainId c)"
  shows "filter (\<lambda>x. call_network x = Some (chainId c)) (new_calls s (snd (getAccountHoldings w addr s))) =
         read_calls (chainId c) addr"
proof -
  from getAccountHoldings_reads [OF assms(1,2), of addr s]
  obtain X where X: "calls (snd (getAccountHoldings w addr s)) = calls s @ X"
    "filter is_read X =
       concat (map (\<lambda>c. if switch_succeeds w (chainId c) then read_calls (chainId c) addr else [])
                SUPPORTED_CHAINS)" by blast
  have "filter (\<lambda>x. call_network x = Some (chainId c)) X =
        filter (\<lambda>x. call_network x = Some (chainId c)) (filter is_read X)"
    by (rule filter_network_is_read)
  also have "\<dots> = read_calls (chainId c) addr"
    unfolding X(2) using registry_cases [OF assms(3)] assms(4)
    by (elim disjE)
       (simp_all add: SUPPORTED_CHAINS_def registry_ids filter_network_read_calls
          if_distrib [of "filter _"])
  finally show ?thesis by (simp add: new_calls_append [OF X(1)])
qed

lemma getAccountHoldings_block:
  assumes "has_window w" "has_ethereum w" "c \<in> set SUPPORTED_CHAINS"
  shows "\<exists>hs. fst (getAccountHoldings w addr s) = Inr hs \<and>
              filter (\<lambda>h. chain h = name c) hs = network_holdings w addr c"
proof -
  let ?hs = "network_holdings w addr ETH_MAINNET @ network_holdings w addr BSC @
             network_holdings w addr POLYGON @ network_holdings w addr ARBITRUM"
  have "fst (getAccountHoldings w addr s) = Inr ?hs"
    using getAccountHoldings_fst [OF assms(1,2), of addr s] by (simp add: SUPPORTED_CHAINS_def)
  moreover have "filter (\<lambda>h. chain h = name c) ?hs = network_holdings w addr c"
    using registry_cases [OF assms(3)]
    by (elim disjE) (simp_all add: filter_chain_network_holdings registry_names)
  ultimately show ?thesis by blast
qed

lemma switchChain_provider:
  assumes "fst (switchChain w cid s0) = Inr p"
  shows "switch_succeeds w cid \<and> network p = cid"
proof -
  have ok: "switch_succeeds w cid"
  proof (rule ccontr)
    assume "\<not> switch_succeeds w cid"
    from switchChain_fst_fails [OF this, of s0] assms show False by simp
  qed
  from switchChain_fst_succeeds [OF ok, of s0] assms have "network p = cid" by auto
  with ok show ?thesis by simp
qed

text \<open>
  C7. For every token of the known-token list the read issues the three contract calls
  \<open>balanceOf\<close>, \<open>symbol\<close> and \<open>decimals\<close> together: all three are made whatever any
  of them answers. If any of the three fails, that token yields none; the result for each
  token of the list is that of its own read alone. When all three answer and the balance
  is not zero, the holding carries the queried symbol and the balance scaled exactly by the
  queried decimals; the symbol of the registry is no argument of the read. Within the
  aggregation, on every network of the registry that the switch has reached with the
  provider \<open>p\<close>, the calls made on that network are the native read and then the three
  calls of every token of the network's list, whatever fails; the holdings of that network
  in the result are the native holding and then the holding of every token whose own read
  gives one, in the order of the list. So a token that fails takes neither the other
  tokens nor the network out of the result.
\<close>

theorem getTokenBalance_isolated:
  "calls (snd (getTokenBalance w p t addr nm s)) =
     calls s @ [Call_balanceOf (network p) t addr, Call_symbol (network p) t, Call_decimals (network p) t] \<and>
   (isl (balanceOf w (network p) t addr) \<or> isl (symbol_of w (network p) t) \<or> isl (decimals_of w (network p) t)
      \<longrightarrow> fst (getTokenBalance w p t addr nm s) = None) \<and>
   (balanceOf w (network p) t addr = Inr b \<longrightarrow> symbol_of w (network p) t = Inr sy \<longrightarrow>
    decimals_of w (network p) t = Inr d \<longrightarrow> b \<noteq> 0 \<longrightarrow>
      (\<exists>q. fst (getTokenBalance w p t addr nm s) =
              Some \<lparr>symbol = sy, chain = nm, quantity = q, selected = False\<rparr> \<and>
            formatUnits (unat b) (unat d) = Inr q \<and> quantity_units q (unat d) = unat b)) \<and>
   fst (tokenBalances_all w p addr nm toks s) =
     map (\<lambda>token. fst (getTokenBalance w p (token_address token) addr nm s)) toks \<and>
   calls (snd (tokenBalances_all w p addr nm toks s)) =
     calls s @ concat (map (\<lambda>token. token_calls (network p) (token_address token) addr) toks) \<and>
   (has_window w \<longrightarrow> has_ethereum w \<longrightarrow> c \<in> set SUPPORTED_CHAINS \<longrightarrow>
    fst (switchChain w (chainId c) s0) = Inr p \<longrightarrow>
      filter (\<lambda>x. call_network x = Some (chainId c)) (new_calls s (snd (getAccountHoldings w addr s))) =
        Call_getBalance (chainId c) addr
        # concat (map (\<lambda>token. [Call_balanceOf (chainId c) (token_address token) addr,
                                   Call_symbol (chainId c) (token_address token),
                                   Call_decimals (chainId c) (token_address token)])
                   (getCommonTokensForChain (chainId c))) \<and>
      (\<exists>hs. fst (getAccountHoldings w addr s) = Inr hs \<and>
         filter (\<lambda>h. chain h = name c) hs =
           native_read w addr c @
           map the (filter (\<lambda>b. b \<noteq> None)
                      (map (\<lambda>token. fst (getTokenBalance w p (token_address token) addr (name c) s))
                         (getCommonTokensForChain (chainId c)))) \<and>
         (\<forall>token \<in> set (getCommonTokensForChain (chainId c)).
            \<forall>h. fst (getTokenBalance w p (token_address token) addr (name c) s) = Some h \<longrightarrow> h \<in> set hs)))"
proof (intro conjI impI)
  show "calls (snd (getTokenBalance w p t addr nm s)) =
     calls s @ [Call_balanceOf (network p) t addr, Call_symbol (network p) t, Call_decimals (network p) t]"
    by (simp add: getTokenBalance_calls token_calls_def)
next
  assume "isl (balanceOf w (network p) t addr) \<or> isl (symbol_of w (network p) t) \<or>
          isl (decimals_of w (network p) t)"
  then show "fst (getTokenBalance w p t addr nm s) = None"
    by (auto simp: getTokenBalance_def Let_def promise_all3_def isl_def split: sum.splits)
next
  assume r: "balanceOf w (network p) t addr = Inr b" "symbol_of w (network p) t = Inr sy"
    "decimals_of w (network p) t = Inr d" and nz: "b \<noteq> 0"
  have "unat d < 2 ^ 8" using unsigned_less [of d] by simp
  then have "unat d \<le> 256" by simp
  from formatUnits_units [OF this, of "unat b"]
  obtain q where q: "formatUnits (unat b) (unat d) = Inr q" "quantity_units q (unat d) = unat b"
    by blast
  with r nz show "\<exists>q. fst (getTokenBalance w p t addr nm s) =
              Some \<lparr>symbol = sy, chain = nm, quantity = q, selected = False\<rparr> \<and>
            formatUnits (unat b) (unat d) = Inr q \<and> quantity_units q (unat d) = unat b"
    by (simp add: getTokenBalance_def promise_all3_def)
next
  show "fst (tokenBalances_all w p addr nm toks s) =
     map (\<lambda>token. fst (getTokenBalance w p (token_address token) addr nm s)) toks"
    by (rule tokenBalances_all_fst_same)
  show "calls (snd (tokenBalances_all w p addr nm toks s)) =
     calls s @ concat (map (\<lambda>token. token_calls (network p) (token_address token) addr) toks)"
    by (rule tokenBalances_all_calls)
next
  assume hw: "has_window w" and he: "has_ethereum w" and reg: "c \<in> set SUPPORTED_CHAINS"
    and sw: "fst (switchChain w (chainId c) s0) = Inr p"
  from switchChain_provider [OF sw] have ok: "switch_succeeds w (chainId c)"
    and np: "network p = chainId c" by simp_all
  show "filter (\<lambda>x. call_network x = Some (chainId c)) (new_calls s (snd (getAccountHoldings w addr s))) =
        Call_getBalance (chainId c) addr
        # concat (map (\<lambda>token. [Call_balanceOf (chainId c) (token_address token) addr,
                                   Call_symbol (chainId c) (token_address token),
                                   Call_decimals (chainId c) (token_address token)])
                   (getCommonTokensForChain (chainId c)))"
    using getAccountHoldings_reads_on [OF hw he reg ok, of s addr]
    by (simp only: read_calls_unfold)
  let ?own = "\<lambda>token. fst (getTokenBalance w p (token_address token) addr (name c) s)"
  let ?toks = "getCommonTokensForChain (chainId c)"
  have own: "token_read w addr c token = ?own token" for token
    using getTokenBalance_fst [of w p "token_address token" addr "name c" s]
    by (simp add: token_read_def np)
  have "token_read w addr c = ?own" by (rule ext) (rule own)
  with ok have nh: "network_holdings w addr c =
      native_read w addr c @ map the (filter (\<lambda>b. b \<noteq> None) (map ?own ?toks))"
    by (simp add: network_holdings_def token_reads_def del: not_None_eq)
  from getAccountHoldings_block [OF hw he reg, of addr s]
  obtain hs where hs: "fst (getAccountHoldings w addr s) = Inr hs"
    "filter (\<lambda>h. chain h = name c) hs = network_holdings w addr c" by blast
  have "h \<in> set hs" if "token \<in> set ?toks" "?own token = Some h" for token h
  proof -
    from that have "Some h \<in> set (filter (\<lambda>b. b \<noteq> None) (map ?own ?toks))" by force
    then have "the (Some h) \<in> set (map the (filter (\<lambda>b. b \<noteq> None) (map ?own ?toks)))"
      unfolding set_map by (rule imageI)
    then have "h \<in> set (network_holdings w addr c)" by (simp add: nh del: not_None_eq)
    then have "h \<in> set (filter (\<lambda>h. chain h = name c) hs)" by (simp only: hs(2))
    then show ?thesis by simp
  qed
  with hs nh show "\<exists>hs. fst (getAccountHoldings w addr s) = Inr hs \<and>
         filter (\<lambda>h. chain h = name c) hs =
           native_read w addr c @
           map the (filter (\<lambda>b. b \<noteq> None)
                      (map (\<lambda>token. fst (getTokenBalance w p (token_address token) addr (name c) s))
                         (getCommonTokensForChain (chainId c)))) \<and>
         (\<forall>token \<in> set (getCommonTokensForChain (chainId c)).
            \<forall>h. fst (getTokenBalance w p (token_address token) addr (name c) s) = Some h \<longrightarrow> h \<in> set hs)"
    by auto
qed

theorem getTokenBalance_isolated_witness:
  "(isl (decimals_of demo_wallet (network \<lparr>handle = 2, network = ''0x1''\<rparr>)
          ''0xdAC17F958D2ee523a2206206994597C13D831ec7'') \<and>
    fst (getTokenBalance demo_wallet \<lparr>handle = 2, network = ''0x1''\<rparr>
           ''0xdAC17F958D2ee523a2206206994597C13D831ec7'' alice ''ETHEREUM'' world0) = None \<and>
    balanceOf demo_wallet (network \<lparr>handle = 2, network = ''0x1''\<rparr>)
      ''0xA0b86991c6218b36c1d19D4a2e9Eb0cE3606eB48'' alice = Inr 500000 \<and>
    symbol_of demo_wallet (network \<lparr>handle = 2, network = ''0x1''\<rparr>)
      ''0xA0b86991c6218b36c1d19D4a2e9Eb0cE3606eB48'' = Inr ''USD Coin'' \<and>
    decimals_of demo_wallet (network \<lparr>handle = 2, network = ''0x1''\<rparr>)
      ''0xA0b86991c6218b36c1d19D4a2e9Eb0cE3606eB48'' = Inr 6 \<and>
    (500000 :: 256 word) \<noteq> 0 \<and>
    fst (getTokenBalance demo_wallet \<lparr>handle = 2, network = ''0x1''\<rparr>
           ''0xA0b86991c6218b36c1d19D4a2e9Eb0cE3606eB48'' alice ''ETHEREUM'' world0) =
      Some \<lparr>symbol = ''USD Coin'', chain = ''ETHEREUM'', quantity = ''0.5'', selected = False\<rparr> \<and>
    fst (tokenBalances_all demo_wallet \<lparr>handle = 2, network = ''0x1''\<rparr> alice ''ETHEREUM''
           (getCommonTokensForChain ''0x1'') world0) =
      [Some \<lparr>symbol = ''USD Coin'', chain = ''ETHEREUM'', quantity = ''0.5'', selected = False\<rparr>,
       None, None]) \<and>
   (has_window demo_wallet \<and> has_ethereum demo_wallet \<and> ETH_MAINNET \<in> set SUPPORTED_CHAINS \<and>
    fst (switchChain demo_wallet (chainId ETH_MAINNET) world0) = Inr \<lparr>handle = 2, network = ''0x1''\<rparr> \<and>
    filter (\<lambda>x. call_network x = Some ''0x1'')
      (new_calls world0 (snd (getAccountHoldings demo_wallet alice world0))) =
      [Call_getBalance ''0x1'' alice,
       Call_balanceOf ''0x1'' ''0xA0b86991c6218b36c1d19D4a2e9Eb0cE3606eB48'' alice,
       Call_symbol ''0x1'' ''0xA0b86991c6218b36c1d19D4a2e9Eb0cE3606eB48'',
       Call_decimals ''0x1'' ''0xA0b86991c6218b36c1d19D4a2e9Eb0cE3606eB48'',
       Call_balanceOf ''0x1'' ''0xdAC17F958D2ee523a2206206994597C13D831ec7'' alice,
       Call_symbol ''0x1'' ''0xdAC17F958D2ee523a2206206994597C13D831ec7'',
       Call_decimals ''0x1'' ''0xdAC17F958D2ee523a2206206994597C13D831ec7'',
       Call_balanceOf ''0x1'' ''0x2260FAC5E5542a773Aa44fBCfeDf7C193bc2C599'' alice,
       Call_symbol ''0x1'' ''0x2260FAC5E5542a773Aa44fBCfeDf7C193bc2C599'',
       Call_decimals ''0x1'' ''0x2260FAC5E5542a773Aa44fBCfeDf7C193bc2C599''] \<and>
    fst (getAccountHoldings demo_wallet alice world0) =
      Inr [\<lparr>symbol = ''ETH'', chain = ''ETHEREUM'', quantity = ''1.0'', selected = False\<rparr>,
           \<lparr>symbol = ''USD Coin'', chain = ''ETHEREUM'', quantity = ''0.5'', selected = False\<rparr>,
           \<lparr>symbol = ''MATIC'', chain = ''POLYGON'', quantity = ''2.5'', selected = False\<rparr>])"
proof (rule conjI)
  show "isl (decimals_of demo_wallet (network \<lparr>handle = 2, network = ''0x1''\<rparr>)
          ''0xdAC17F958D2ee523a2206206994597C13D831ec7'') \<and>
    fst (getTokenBalance demo_wallet \<lparr>handle = 2, network = ''0x1''\<rparr>
           ''0xdAC17F958D2ee523a2206206994597C13D831ec7'' alice ''ETHEREUM'' world0) = None \<and>
    balanceOf demo_wallet (network \<lparr>handle = 2, network = ''0x1''\<rparr>)
      ''0xA0b86991c6218b36c1d19D4a2e9Eb0cE3606eB48'' alice = Inr 500000 \<and>
    symbol_of demo_wallet (network \<lparr>handle = 2, network = ''0x1''\<rparr>)
      ''0xA0b86991c6218b36c1d19D4a2e9Eb0cE3606eB48'' = Inr ''USD Coin'' \<and>
    decimals_of demo_wallet (network \<lparr>handle = 2, network = ''0x1''\<rparr>)
      ''0xA0b86991c6218b36c1d19D4a2e9Eb0cE3606eB48'' = Inr 6 \<and>
    (500000 :: 256 word) \<noteq> 0 \<and>
    fst (getTokenBalance demo_wallet \<lparr>handle = 2, network = ''0x1''\<rparr>
           ''0xA0b86991c6218b36c1d19D4a2e9Eb0cE3606eB48'' alice ''ETHEREUM'' world0) =
      Some \<lparr>symbol = ''USD Coin'', chain = ''ETHEREUM'', quantity = ''0.5'', selected = False\<rparr> \<and>
    fst (tokenBalances_all demo_wallet \<lparr>handle = 2, network = ''0x1''\<rparr> alice ''ETHEREUM''
           (getCommonTokensForChain ''0x1'') world0) =
      [Some \<lparr>symbol = ''USD Coin'', chain = ''ETHEREUM'', quantity = ''0.5'', selected = False\<rparr>,
       None, None]"
    using getTokenBalance_isolated [where w = demo_wallet and p = "\<lparr>handle = 2, network = ''0x1''\<rparr>"
            and t = "''0xdAC17F958D2ee523a2206206994597C13D831ec7''" and addr = alice
            and nm = "''ETHEREUM''" and s = world0 and toks = "getCommonTokensForChain ''0x1''"
            and c = BSC and s0 = world0, THEN conjunct2, THEN conjunct1]
      getTokenBalance_isolated [where w = demo_wallet and p = "\<lparr>handle = 2, network = ''0x1''\<rparr>"
            and t = "''0xA0b86991c6218b36c1d19D4a2e9Eb0cE3606eB48''" and addr = alice
            and nm = "''ETHEREUM''" and s = world0 and toks = "getCommonTokensForChain ''0x1''"
            and c = BSC and s0 = world0, THEN conjunct2, THEN conjunct2, THEN conjunct2, THEN conjunct1]
    by (simp add: demo_wallet_def alice_def getCommonTokensForChain_def
          getTokenBalance_def promise_all3_def formatUnits_examples)
next
  have hw: "has_window demo_wallet" and he: "has_ethereum demo_wallet"
    by (simp_all add: demo_wallet_fields)
  have reg: "ETH_MAINNET \<in> set SUPPORTED_CHAINS" by (simp add: SUPPORTED_CHAINS_def)
  have sw: "fst (switchChain demo_wallet (chainId ETH_MAINNET) world0) = Inr \<lparr>handle = 2, network = ''0x1''\<rparr>"
    using switchChain_fst_succeeds [OF demo_switch(1), of world0]
    by (simp add: registry_ids world0_def)
  note agg = getTokenBalance_isolated [where w = demo_wallet
      and p = "\<lparr>handle = 2, network = ''0x1''\<rparr>" and c = ETH_MAINNET and s0 = world0
      and s = world0 and addr = alice, THEN conjunct2, THEN conjunct2, THEN conjunct2,
      THEN conjunct2, THEN conjunct2, rule_format, OF hw he reg sw, THEN conjunct1]
  have reads: "filter (\<lambda>x. call_network x = Some ''0x1'')
      (new_calls world0 (snd (getAccountHoldings demo_wallet alice world0))) =
      [Call_getBalance ''0x1'' alice,
       Call_balanceOf ''0x1'' ''0xA0b86991c6218b36c1d19D4a2e9Eb0cE3606eB48'' alice,
       Call_symbol ''0x1'' ''0xA0b86991c6218b36c1d19D4a2e9Eb0cE3606eB48'',
       Call_decimals ''0x1'' ''0xA0b86991c6218b36c1d19D4a2e9Eb0cE3606eB48'',
       Call_balanceOf ''0x1'' ''0xdAC17F958D2ee523a2206206994597C13D831ec7'' alice,
       Call_symbol ''0x1'' ''0xdAC17F958D2ee523a2206206994597C13D831ec7'',
       Call_decimals ''0x1'' ''0xdAC17F958D2ee523a2206206994597C13D831ec7'',
       Call_balanceOf ''0x1'' ''0x2260FAC5E5542a773Aa44fBCfeDf7C193bc2C599'' alice,
       Call_symbol ''0x1'' ''0x2260FAC5E5542a773Aa44fBCfeDf7C193bc2C599'',
       Call_decimals ''0x1'' ''0x2260FAC5E5542a773Aa44fBCfeDf7C193bc2C599'']"
    using agg by (simp add: registry_ids getCommonTokensForChain_def)
  from hw he reg sw reads demo_holdings [of world0]
  show "has_window demo_wallet \<and> has_ethereum demo_wallet \<and> ETH_MAINNET \<in> set SUPPORTED_CHAINS \<and>
    fst (switchChain demo_wallet (chainId ETH_MAINNET) world0) = Inr \<lparr>handle = 2, network = ''0x1''\<rparr> \<and>
    filter (\<lambda>x. call_network x = Some ''0x1'')
      (new_calls world0 (snd (getAccountHoldings demo_wallet alice world0))) =
      [Call_getBalance ''0x1'' alice,
       Call_balanceOf ''0x1'' ''0xA0b86991c6218b36c1d19D4a2e9Eb0cE3606eB48'' alice,
       Call_symbol ''0x1'' ''0xA0b86991c6218b36c1d19D4a2e9Eb0cE3606eB48'',
       Call_decimals ''0x1'' ''0xA0b86991c6218b36c1d19D4a2e9Eb0cE3606eB48'',
       Call_balanceOf ''0x1'' ''0xdAC17F958D2ee523a2206206994597C13D831ec7'' alice,
       Call_symbol ''0x1'' ''0xdAC17F958D2ee523a2206206994597C13D831ec7'',
       Call_decimals ''0x1'' ''0xdAC17F958D2ee523a2206206994597C13D831ec7'',
       Call_balanceOf ''0x1'' ''0x2260FAC5E5542a773Aa44fBCfeDf7C193bc2C599'' alice,
       Call_symbol ''0x1'' ''0x2260FAC5E5542a773Aa44fBCfeDf7C193bc2C599'',
       Call_decimals ''0x1'' ''0x2260FAC5E5542a773Aa44fBCfeDf7C193bc2C599''] \<and>
    fst (getAccountHoldings demo_wallet alice world0) =
      Inr [\<lparr>symbol = ''ETH'', chain = ''ETHEREUM'', quantity = ''1.0'', selected = False\<rparr>,
           \<lparr>symbol = ''USD Coin'', chain = ''ETHEREUM'', quantity = ''0.5'', selected = False\<rparr>,
           \<lparr>symbol = ''MATIC'', chain = ''POLYGON'', quantity = ''2.5'', selected = False\<rparr>]"
    by (intro conjI)
qed

end
